theory Spec2Isabelle
  imports Complex_Main "HOL-Library.Word" "HOL-Library.List_Lexorder" "HOL-Library.Sublist"
begin

section \<open>Data model\<close>

text \<open>
  Strings of the program are sequences of 16-bit code units, as the source language has
  them: \<open>length\<close> is the source's \<open>.length\<close>, and the order on strings
  (lexicographic on code units, a proper prefix first) is the order of the default
  \<open>sort()\<close>. Numbers are modelled as exact rationals.
\<close>

type_synonym jschar = "16 word"
type_synonym jsstring = "jschar list"

definition js :: "string \<Rightarrow> jsstring" where
  "js s = map of_char s"

datatype Gender = Man | Kvinna | Other
datatype PersonStatus = Levande | Dod | Okand

text \<open>FamilyMember (shared/types/FamilyMember.ts); \<open>mid\<close> is the field \<open>id\<close>.\<close>

record FamilyMember =
  mid :: jsstring
  namn :: jsstring
  kon :: Gender
  generation :: rat
  foraldrar :: "jsstring list"
  barn :: "jsstring list"
  partner :: "jsstring option"
  status :: PersonStatus
  anteckningar :: jsstring

text \<open>LayoutTypes.ts\<close>

record Dimensions =
  width :: rat
  height :: rat

record PersonLayout =
  px :: rat
  py :: rat
  pmember :: FamilyMember
  textWidth :: rat

datatype ConnectionType = ParentChild | Marriage | Sibling

record ConnectionLine =
  x1 :: rat
  y1 :: rat
  x2 :: rat
  y2 :: rat
  ctype :: ConnectionType

record MarriageConnection =
  person1 :: PersonLayout
  person2 :: PersonLayout
  symbolX :: rat
  symbolY :: rat

record GenerationGroup =
  ggeneration :: rat
  gmembers :: "FamilyMember list"
  yPosition :: rat
  leftmostX :: rat
  rightmostX :: rat

record LayoutResult =
  people :: "PersonLayout list"
  connections :: "ConnectionLine list"
  marriages :: "MarriageConnection list"
  dimensions :: Dimensions
  generations :: "GenerationGroup list"

record LayoutConfig =
  generationSpacing :: rat
  personSpacing :: rat
  marriageSpacing :: rat
  fontSize :: rat
  fontFamily :: jsstring
  marginTop :: rat
  marginBottom :: rat
  marginLeft :: rat
  marginRight :: rat
  titleHeight :: rat
  lineColor :: jsstring
  lineWidth :: rat

text \<open>\<open>Partial<LayoutConfig>\<close>: every field may be absent.\<close>

record PartialLayoutConfig =
  o_generationSpacing :: "rat option"
  o_personSpacing :: "rat option"
  o_marriageSpacing :: "rat option"
  o_fontSize :: "rat option"
  o_fontFamily :: "jsstring option"
  o_marginTop :: "rat option"
  o_marginBottom :: "rat option"
  o_marginLeft :: "rat option"
  o_marginRight :: "rat option"
  o_titleHeight :: "rat option"
  o_lineColor :: "jsstring option"
  o_lineWidth :: "rat option"

definition noOverrides :: PartialLayoutConfig where
  "noOverrides = \<lparr> o_generationSpacing = None, o_personSpacing = None,
     o_marriageSpacing = None, o_fontSize = None, o_fontFamily = None, o_marginTop = None,
     o_marginBottom = None, o_marginLeft = None, o_marginRight = None, o_titleHeight = None,
     o_lineColor = None, o_lineWidth = None \<rparr>"

definition orElse :: "'a option \<Rightarrow> 'a \<Rightarrow> 'a" where
  "orElse v d = (case v of None \<Rightarrow> d | Some a \<Rightarrow> a)"

text \<open>The constructor of LayoutEngine and of SVGGenerator: the defaults, then the
  fields of the given partial configuration.\<close>

definition newConfig :: "PartialLayoutConfig \<Rightarrow> LayoutConfig" where
  "newConfig c = \<lparr>
     generationSpacing = orElse (o_generationSpacing c) 80,
     personSpacing = orElse (o_personSpacing c) 120,
     marriageSpacing = orElse (o_marriageSpacing c) 40,
     fontSize = orElse (o_fontSize c) 16,
     fontFamily = orElse (o_fontFamily c) (js ''Dancing Script''),
     marginTop = orElse (o_marginTop c) 100,
     marginBottom = orElse (o_marginBottom c) 50,
     marginLeft = orElse (o_marginLeft c) 50,
     marginRight = orElse (o_marginRight c) 50,
     titleHeight = orElse (o_titleHeight c) 90,
     lineColor = orElse (o_lineColor c) (js ''#8b7355''),
     lineWidth = orElse (o_lineWidth c) 1 \<rparr>"

text \<open>A value of type \<open>string | null\<close> used as a condition: true for a non-empty string.\<close>

definition truthy :: "jsstring option \<Rightarrow> bool" where
  "truthy v = (case v of None \<Rightarrow> False | Some s \<Rightarrow> s \<noteq> [])"

section \<open>LayoutEngine\<close>

subsection \<open>estimateTextWidth\<close>

definition avgCharWidth :: rat where
  "avgCharWidth = 8"

definition estimateTextWidth :: "LayoutConfig \<Rightarrow> jsstring \<Rightarrow> rat" where
  "estimateTextWidth cfg text = of_nat (length text) * avgCharWidth"

subsection \<open>groupByGeneration\<close>

text \<open>The \<open>Map<number, FamilyMember[]>\<close> in insertion order: a member is appended to
  the entry of its generation, and a new entry goes to the end.\<close>

fun addToGenerationMap ::
  "FamilyMember \<Rightarrow> (rat \<times> FamilyMember list) list \<Rightarrow> (rat \<times> FamilyMember list) list" where
  "addToGenerationMap m [] = [(generation m, [m])]"
| "addToGenerationMap m ((g, ms) # rest) =
     (if g = generation m then (g, ms @ [m]) # rest
      else (g, ms) # addToGenerationMap m rest)"

definition generationMapOf :: "FamilyMember list \<Rightarrow> (rat \<times> FamilyMember list) list" where
  "generationMapOf members = fold addToGenerationMap members []"

definition bandAt ::
  "LayoutConfig \<Rightarrow> (rat \<times> FamilyMember list) list \<Rightarrow> nat \<times> rat \<Rightarrow> GenerationGroup" where
  "bandAt cfg generationMap ig = (case ig of (index, gen) \<Rightarrow>
     \<lparr> ggeneration = gen,
       gmembers = orElse (map_of generationMap gen) [],
       yPosition = titleHeight cfg + marginTop cfg + (of_nat index * generationSpacing cfg),
       leftmostX = 0,
       rightmostX = 0 \<rparr>)"

definition groupByGeneration :: "LayoutConfig \<Rightarrow> FamilyMember list \<Rightarrow> GenerationGroup list" where
  "groupByGeneration cfg members =
     (let generationMap = generationMapOf members;
          sortedGens = sort (map fst generationMap)
      in map (bandAt cfg generationMap) (enumerate 0 sortedGens))"

subsection \<open>calculateTotalWidthForGeneration\<close>

fun totalWidthLoop :: "LayoutConfig \<Rightarrow> rat \<Rightarrow> FamilyMember list \<Rightarrow> rat" where
  "totalWidthLoop cfg totalWidth [] = totalWidth"
| "totalWidthLoop cfg totalWidth [m] = totalWidth + estimateTextWidth cfg (namn m)"
| "totalWidthLoop cfg totalWidth (m # nextMember # rest) =
     totalWidthLoop cfg
       (totalWidth + estimateTextWidth cfg (namn m) +
          (if partner m = Some (mid nextMember) \<or> partner nextMember = Some (mid m)
           then marriageSpacing cfg else personSpacing cfg))
       (nextMember # rest)"

definition calculateTotalWidthForGeneration :: "LayoutConfig \<Rightarrow> FamilyMember list \<Rightarrow> rat" where
  "calculateTotalWidthForGeneration cfg members = totalWidthLoop cfg 0 members"

subsection \<open>calculatePersonPositions\<close>

definition hasSpouseIn :: "FamilyMember list \<Rightarrow> FamilyMember \<Rightarrow> bool" where
  "hasSpouseIn genMembers m =
     (truthy (partner m) \<and> find (\<lambda>s. Some (mid s) = partner m) genMembers \<noteq> None)"

text \<open>The inner loop over the members of one band: the layouts pushed and the final
  cursor.\<close>

fun placeMembers ::
  "LayoutConfig \<Rightarrow> FamilyMember list \<Rightarrow> rat \<Rightarrow> rat \<Rightarrow> FamilyMember list
     \<Rightarrow> PersonLayout list \<times> rat" where
  "placeMembers cfg genMembers y currentX [] = ([], currentX)"
| "placeMembers cfg genMembers y currentX (m # rest) =
     (let tw = estimateTextWidth cfg (namn m);
          layout = \<lparr> px = currentX + tw / 2, py = y, pmember = m, textWidth = tw \<rparr>;
          moved = currentX + tw + personSpacing cfg;
          nextX = (if hasSpouseIn genMembers m
                   then moved - (personSpacing cfg - marriageSpacing cfg) else moved);
          r = placeMembers cfg genMembers y nextX rest
      in (layout # fst r, snd r))"

definition startX :: "LayoutConfig \<Rightarrow> FamilyMember list \<Rightarrow> rat" where
  "startX cfg genMembers =
     marginLeft cfg + max 0 ((400 - calculateTotalWidthForGeneration cfg genMembers) / 2)"

definition placeGeneration :: "LayoutConfig \<Rightarrow> GenerationGroup \<Rightarrow> PersonLayout list \<times> GenerationGroup" where
  "placeGeneration cfg g =
     (let genMembers = gmembers g;
          r = placeMembers cfg genMembers (yPosition g) (startX cfg genMembers) genMembers
      in (fst r, g\<lparr> leftmostX := marginLeft cfg, rightmostX := snd r \<rparr>))"

text \<open>The layouts of all bands in order, and the bands with their bounds updated (the
  source updates the band objects in place).\<close>

definition calculatePersonPositions ::
  "LayoutConfig \<Rightarrow> GenerationGroup list \<Rightarrow> PersonLayout list \<times> GenerationGroup list" where
  "calculatePersonPositions cfg gens =
     (let rs = map (placeGeneration cfg) gens
      in (concat (map fst rs), map snd rs))"

subsection \<open>generateConnections\<close>

definition layoutMapOf :: "PersonLayout list \<Rightarrow> (jsstring \<rightharpoonup> PersonLayout)" where
  "layoutMapOf personLayouts = fold (\<lambda>layout lm. lm(mid (pmember layout) \<mapsto> layout)) personLayouts Map.empty"

definition parentConnection :: "PersonLayout \<Rightarrow> PersonLayout \<Rightarrow> ConnectionLine" where
  "parentConnection parentLayout childLayout =
     \<lparr> x1 = px parentLayout, y1 = py parentLayout + 10,
       x2 = px childLayout, y2 = py childLayout - 10, ctype = ParentChild \<rparr>"

definition connectionsOf :: "(jsstring \<rightharpoonup> PersonLayout) \<Rightarrow> FamilyMember \<Rightarrow> ConnectionLine list" where
  "connectionsOf layoutMap m =
     (case layoutMap (mid m) of
        None \<Rightarrow> []
      | Some childLayout \<Rightarrow>
          concat (map (\<lambda>parentId. case layoutMap parentId of
                         None \<Rightarrow> []
                       | Some parentLayout \<Rightarrow> [parentConnection parentLayout childLayout])
                      (foraldrar m)))"

definition generateConnections :: "PersonLayout list \<Rightarrow> FamilyMember list \<Rightarrow> ConnectionLine list" where
  "generateConnections personLayouts members =
     concat (map (connectionsOf (layoutMapOf personLayouts)) members)"

subsection \<open>generateMarriages\<close>

fun joinWith :: "jsstring \<Rightarrow> jsstring list \<Rightarrow> jsstring" where
  "joinWith sep [] = []"
| "joinWith sep [s] = s"
| "joinWith sep (s # t # rest) = s @ sep @ joinWith sep (t # rest)"

definition pairKey :: "jsstring \<Rightarrow> jsstring \<Rightarrow> jsstring" where
  "pairKey a b = joinWith (js ''-'') (sort [a, b])"

definition marriageOf :: "PersonLayout \<Rightarrow> PersonLayout \<Rightarrow> MarriageConnection" where
  "marriageOf person1Layout person2Layout =
     \<lparr> person1 = person1Layout, person2 = person2Layout,
       symbolX = (px person1Layout + px person2Layout) / 2,
       symbolY = (py person1Layout + py person2Layout) / 2 \<rparr>"

text \<open>One round of the loop over the members; the state is the set of processed pair
  keys and the marriages pushed so far.\<close>

definition marriageStep ::
  "(jsstring \<rightharpoonup> PersonLayout) \<Rightarrow> FamilyMember
     \<Rightarrow> jsstring list \<times> MarriageConnection list \<Rightarrow> jsstring list \<times> MarriageConnection list" where
  "marriageStep layoutMap m st =
     (case st of (processedPairs, ms) \<Rightarrow>
        if \<not> truthy (partner m) then (processedPairs, ms)
        else
          let partnerId = the (partner m);
              key = pairKey (mid m) partnerId
          in if key \<in> set processedPairs then (processedPairs, ms)
             else (case (layoutMap (mid m), layoutMap partnerId) of
                     (Some person1Layout, Some person2Layout) \<Rightarrow>
                        (key # processedPairs, ms @ [marriageOf person1Layout person2Layout])
                   | _ \<Rightarrow> (key # processedPairs, ms)))"

definition generateMarriages :: "PersonLayout list \<Rightarrow> FamilyMember list \<Rightarrow> MarriageConnection list" where
  "generateMarriages personLayouts members =
     snd (fold (marriageStep (layoutMapOf personLayouts)) members ([], []))"

subsection \<open>calculateDimensions\<close>

definition leftEdge :: "PersonLayout \<Rightarrow> rat" where
  "leftEdge p = px p - textWidth p / 2"

definition rightEdge :: "PersonLayout \<Rightarrow> rat" where
  "rightEdge p = px p + textWidth p / 2"

text \<open>\<open>Math.min(...)\<close> and \<open>Math.max(...)\<close> of a non-empty argument list.\<close>

definition mathMin :: "rat \<Rightarrow> rat list \<Rightarrow> rat" where
  "mathMin v vs = fold min vs v"

definition mathMax :: "rat \<Rightarrow> rat list \<Rightarrow> rat" where
  "mathMax v vs = fold max vs v"

fun calculateDimensions :: "LayoutConfig \<Rightarrow> PersonLayout list \<Rightarrow> Dimensions" where
  "calculateDimensions cfg [] = \<lparr> width = 595, height = 842 \<rparr>"
| "calculateDimensions cfg (p # ps) =
     (let minX = mathMin (leftEdge p) (map leftEdge ps);
          maxX = mathMax (rightEdge p) (map rightEdge ps);
          minY = mathMin (py p) (map py ps);
          maxY = mathMax (py p) (map py ps)
      in \<lparr> width = max 595 (maxX - minX + marginLeft cfg + marginRight cfg),
           height = max 842 (maxY - minY + marginTop cfg + marginBottom cfg + titleHeight cfg) \<rparr>)"

subsection \<open>generateLayout\<close>

text \<open>\<open>members\<close> is \<open>Object.values(project.members)\<close>. The family groups of step 2
  are computed by the source and never read afterwards; they are left out.\<close>

definition generateLayout :: "LayoutConfig \<Rightarrow> FamilyMember list \<Rightarrow> LayoutResult" where
  "generateLayout cfg members =
     (let gens = groupByGeneration cfg members;
          placed = calculatePersonPositions cfg gens;
          personLayouts = fst placed
      in \<lparr> people = personLayouts,
           connections = generateConnections personLayouts members,
           marriages = generateMarriages personLayouts members,
           dimensions = calculateDimensions cfg personLayouts,
           generations = snd placed \<rparr>)"

section \<open>SVGGenerator\<close>

text \<open>
  The serializer builds the document from template literals. \<open>fmt\<close> is the
  conversion of a number to text that the runtime applies inside a template literal; it
  is not part of the repository and is a parameter of every function that embeds a
  number.
\<close>

datatype Orientation = Portrait | Landscape
datatype Spacing = Tight | Comfortable | Spacious

text \<open>The settings that rendering reads, flattened: font (family, fallbacks, optional
  sizes), orientation, theme colours, the corner-decoration flag, the spacing preset.\<close>

record ProjectSettings =
  fontFamilyName :: jsstring
  fontFallbacks :: "jsstring list"
  fontSizeTitle :: "rat option"
  fontSizeNames :: "rat option"
  orientation :: Orientation
  colorBackground :: jsstring
  colorText :: jsstring
  colorLines :: jsstring
  colorAccent :: jsstring
  showCornerDecorations :: bool
  spacing :: Spacing

text \<open>FamilyProject: \<open>members\<close> is the record of members by key, in the order in
  which \<open>Object.values\<close> and \<open>Object.keys\<close> enumerate it; the relationship log
  is not read by validation, layout or serialization.\<close>

record FamilyProject =
  pid :: jsstring
  pname :: jsstring
  mainPersonId :: jsstring
  members :: "(jsstring \<times> FamilyMember) list"
  settings :: ProjectSettings

subsection \<open>escapeXML\<close>

text \<open>\<open>text.replace(/c/g, r)\<close> for a single character \<open>c\<close>.\<close>

definition replaceAll :: "jschar \<Rightarrow> jsstring \<Rightarrow> jsstring \<Rightarrow> jsstring" where
  "replaceAll c r text = concat (map (\<lambda>d. if d = c then r else [d]) text)"

definition escapeXML :: "jsstring \<Rightarrow> jsstring" where
  "escapeXML text =
     replaceAll 0x27 (js ''&#x27;'')
       (replaceAll 0x22 (js ''&quot;'')
         (replaceAll 0x3E (js ''&gt;'')
           (replaceAll 0x3C (js ''&lt;'')
             (replaceAll 0x26 (js ''&amp;'') text))))"

subsection \<open>Document parts\<close>

definition quoted :: "jsstring \<Rightarrow> jsstring" where
  "quoted f = [0x27] @ f @ [0x27]"

definition generateCornerDecorations :: jsstring where
  "generateCornerDecorations =
     js ''    <!-- Corner decorations -->\<newline>'' @
     js ''    <g id=\"corner-decoration\">\<newline>'' @
     js ''      <circle cx=\"0\" cy=\"0\" r=\"3\" fill=\"#8b7355\"/>\<newline>'' @
     js ''      <circle cx=\"6\" cy=\"0\" r=\"2\" fill=\"#d4c4a8\"/>\<newline>'' @
     js ''      <circle cx=\"0\" cy=\"6\" r=\"2\" fill=\"#d4c4a8\"/>\<newline>'' @
     js ''    </g>''"

definition generateDefs :: "FamilyProject \<Rightarrow> jsstring" where
  "generateDefs project =
     js ''  <defs>\<newline>'' @
     js ''    <!-- Font styles -->\<newline>'' @
     js ''    <style>\<newline>'' @
     js ''      .family-tree-font {\<newline>'' @
     js ''        font-family: '' @
     [0x27] @
     fontFamilyName (settings project) @
     [0x27] @
     js '', '' @
     joinWith (js '', '') (map quoted (fontFallbacks (settings project))) @
     js '';\<newline>'' @
     js ''      }\<newline>'' @
     js ''    </style>\<newline>'' @
     js ''\<newline>'' @
     js ''    <!-- Parchment background gradient -->\<newline>'' @
     js ''    <radialGradient id=\"parchment\" cx=\"50%\" cy=\"50%\" r=\"70%\">\<newline>'' @
     js ''      <stop offset=\"0%\" style=\"stop-color:'' @
     colorBackground (settings project) @
     js ''\"/>\<newline>'' @
     js ''      <stop offset=\"100%\" style=\"stop-color:#e8e0d0\"/>\<newline>'' @
     js ''    </radialGradient>\<newline>'' @
     js ''\<newline>'' @
     js ''    <!-- Text shadow filter -->\<newline>'' @
     js ''    <filter id=\"textShadow\" x=\"-20%\" y=\"-20%\" width=\"140%\" height=\"140%\">\<newline>'' @
     js ''      <feDropShadow dx=\"1\" dy=\"1\" stdDeviation=\"0.5\"\<newline>'' @
     js ''                   flood-color=\"'' @
     colorLines (settings project) @
     js ''\"\<newline>'' @
     js ''                   flood-opacity=\"0.3\"/>\<newline>'' @
     js ''    </filter>\<newline>'' @
     js ''\<newline>'' @
     js ''    <!-- Border decorations -->\<newline>'' @
     js ''    '' @
     (if showCornerDecorations (settings project) then generateCornerDecorations else []) @
     js ''\<newline>'' @
     js ''  </defs>''"

definition generateBackground :: "(rat \<Rightarrow> jsstring) \<Rightarrow> rat \<Rightarrow> rat \<Rightarrow> jsstring" where
  "generateBackground fmt w h =
     js ''  <!-- Parchment background -->\<newline>'' @
     js ''  <rect width=\"'' @
     fmt w @
     js ''\" height=\"'' @
     fmt h @
     js ''\" fill=\"url(#parchment)\" stroke=\"#d4c4a8\" stroke-width=\"3\"/>\<newline>'' @
     js ''\<newline>'' @
     js ''  <!-- Decorative frame -->\<newline>'' @
     js ''  <rect x=\"20\" y=\"20\" width=\"'' @
     fmt (w - 40) @
     js ''\" height=\"'' @
     fmt (h - 40) @
     js ''\"\<newline>'' @
     js ''        fill=\"none\" stroke=\"#8b7355\" stroke-width=\"2\" stroke-dasharray=\"5,3\"/>''"

text \<open>\<open>size?.title || 32\<close>: an absent or zero size gives the default.\<close>

definition orDefault :: "rat option \<Rightarrow> rat \<Rightarrow> rat" where
  "orDefault v d = (case v of None \<Rightarrow> d | Some n \<Rightarrow> if n = 0 then d else n)"

definition generateTitle :: "(rat \<Rightarrow> jsstring) \<Rightarrow> FamilyProject \<Rightarrow> rat \<Rightarrow> jsstring" where
  "generateTitle fmt project w =
     (let centerX = w / 2;
          titleSize = orDefault (fontSizeTitle (settings project)) 32;
          subtitleSize = 18
      in
     js ''  <!-- Title -->\<newline>'' @
     js ''  <text x=\"'' @
     fmt centerX @
     js ''\" y=\"60\" text-anchor=\"middle\"\<newline>'' @
     js ''        class=\"family-tree-font\"\<newline>'' @
     js ''        font-size=\"'' @
     fmt titleSize @
     js ''\" font-weight=\"bold\"\<newline>'' @
     js ''        fill=\"'' @
     colorText (settings project) @
     js ''\"\<newline>'' @
     js ''        filter=\"url(#textShadow)\">\<newline>'' @
     js ''    '' @
     escapeXML (pname project) @
     js ''\<newline>'' @
     js ''  </text>\<newline>'' @
     js ''  <text x=\"'' @
     fmt centerX @
     js ''\" y=\"85\" text-anchor=\"middle\"\<newline>'' @
     js ''        class=\"family-tree-font\"\<newline>'' @
     js ''        font-size=\"'' @
     fmt subtitleSize @
     js ''\"\<newline>'' @
     js ''        fill=\"'' @
     colorLines (settings project) @
     js ''\">\<newline>'' @
     js ''    Sl'' @
     [0xE4] @
     js ''kttr'' @
     [0xE4] @
     js ''d\<newline>'' @
     js ''  </text>'')"

definition midY :: "ConnectionLine \<Rightarrow> rat" where
  "midY conn = (y1 conn + y2 conn) / 2"

definition connectionElement :: "(rat \<Rightarrow> jsstring) \<Rightarrow> LayoutConfig \<Rightarrow> ConnectionLine \<Rightarrow> jsstring" where
  "connectionElement fmt cfg conn =
     (if ctype conn = ParentChild then
     js ''    <!-- Parent-child connection -->\<newline>'' @
     js ''    <path d=\"M '' @
     fmt (x1 conn) @
     js '' '' @
     fmt (y1 conn) @
     js '' L '' @
     fmt (x1 conn) @
     js '' '' @
     fmt (midY conn) @
     js '' L '' @
     fmt (x2 conn) @
     js '' '' @
     fmt (midY conn) @
     js '' L '' @
     fmt (x2 conn) @
     js '' '' @
     fmt (y2 conn) @
     js ''\"\<newline>'' @
     js ''          stroke=\"'' @
     lineColor cfg @
     js ''\"\<newline>'' @
     js ''          stroke-width=\"'' @
     fmt (lineWidth cfg) @
     js ''\"\<newline>'' @
     js ''          fill=\"none\"/>''
      else
     js ''    <line x1=\"'' @
     fmt (x1 conn) @
     js ''\" y1=\"'' @
     fmt (y1 conn) @
     js ''\" x2=\"'' @
     fmt (x2 conn) @
     js ''\" y2=\"'' @
     fmt (y2 conn) @
     js ''\"\<newline>'' @
     js ''                stroke=\"'' @
     lineColor cfg @
     js ''\"\<newline>'' @
     js ''                stroke-width=\"'' @
     fmt (lineWidth cfg) @
     js ''\"/>'')"

definition generateConnectionsSVG ::
  "(rat \<Rightarrow> jsstring) \<Rightarrow> LayoutConfig \<Rightarrow> ConnectionLine list \<Rightarrow> jsstring" where
  "generateConnectionsSVG fmt cfg conns =
     (if length conns = 0 then []
      else let lines = joinWith (js ''\<newline>'') (map (connectionElement fmt cfg) conns)
           in js ''  <!-- Family connections -->\<newline>'' @ lines)"

definition marriageElement :: "(rat \<Rightarrow> jsstring) \<Rightarrow> LayoutConfig \<Rightarrow> MarriageConnection \<Rightarrow> jsstring" where
  "marriageElement fmt cfg marriage =
     (let line =
     js ''    <line x1=\"'' @
     fmt (px (person1 marriage)) @
     js ''\" y1=\"'' @
     fmt (py (person1 marriage)) @
     js ''\"\<newline>'' @
     js ''                         x2=\"'' @
     fmt (px (person2 marriage)) @
     js ''\" y2=\"'' @
     fmt (py (person2 marriage)) @
     js ''\"\<newline>'' @
     js ''                         stroke=\"'' @
     lineColor cfg @
     js ''\"\<newline>'' @
     js ''                         stroke-width=\"'' @
     fmt (lineWidth cfg) @
     js ''\"/>'';
          symbol =
     js ''    <text x=\"'' @
     fmt (symbolX marriage) @
     js ''\" y=\"'' @
     fmt (symbolY marriage + 6) @
     js ''\"\<newline>'' @
     js ''                           text-anchor=\"middle\"\<newline>'' @
     js ''                           class=\"family-tree-font\"\<newline>'' @
     js ''                           font-size=\"14\"\<newline>'' @
     js ''                           fill=\"'' @
     lineColor cfg @
     js ''\">'' @
     [0x26AD] @
     js ''</text>''
      in line @ js ''\<newline>'' @ symbol)"

definition generateMarriagesSVG ::
  "(rat \<Rightarrow> jsstring) \<Rightarrow> LayoutConfig \<Rightarrow> MarriageConnection list \<Rightarrow> jsstring" where
  "generateMarriagesSVG fmt cfg ms =
     (if length ms = 0 then []
      else let symbols = joinWith (js ''\<newline>'') (map (marriageElement fmt cfg) ms)
           in js ''  <!-- Marriage connections -->\<newline>'' @ symbols)"

definition personElement :: "(rat \<Rightarrow> jsstring) \<Rightarrow> LayoutConfig \<Rightarrow> PersonLayout \<Rightarrow> jsstring" where
  "personElement fmt cfg person =
     js ''    <text x=\"'' @
     fmt (px person) @
     js ''\" y=\"'' @
     fmt (py person) @
     js ''\"\<newline>'' @
     js ''                  text-anchor=\"middle\"\<newline>'' @
     js ''                  class=\"family-tree-font\"\<newline>'' @
     js ''                  font-size=\"'' @
     fmt (fontSize cfg) @
     js ''\"\<newline>'' @
     js ''                  fill=\"'' @
     lineColor cfg @
     js ''\">\<newline>'' @
     js ''      '' @
     escapeXML (namn (pmember person)) @
     js ''\<newline>'' @
     js ''    </text>''"

definition generatePeople :: "(rat \<Rightarrow> jsstring) \<Rightarrow> LayoutConfig \<Rightarrow> PersonLayout list \<Rightarrow> jsstring" where
  "generatePeople fmt cfg persons =
     (if length persons = 0 then []
      else let textElements = joinWith (js ''\<newline>'') (map (personElement fmt cfg) persons)
           in js ''  <!-- Family members -->\<newline>'' @ textElements)"

definition generateSVG ::
  "(rat \<Rightarrow> jsstring) \<Rightarrow> LayoutConfig \<Rightarrow> FamilyProject \<Rightarrow> LayoutResult \<Rightarrow> jsstring" where
  "generateSVG fmt cfg project layout =
     (let w = width (dimensions layout); h = height (dimensions layout) in
     js ''<?xml version=\"1.0\" encoding=\"UTF-8\"?>\<newline>'' @
     js ''<svg width=\"'' @
     fmt w @
     js ''\" height=\"'' @
     fmt h @
     js ''\" xmlns=\"http://www.w3.org/2000/svg\">\<newline>'' @
     js ''  '' @
     generateDefs project @
     js ''\<newline>'' @
     js ''  '' @
     generateBackground fmt w h @
     js ''\<newline>'' @
     js ''  '' @
     generateTitle fmt project w @
     js ''\<newline>'' @
     js ''  '' @
     generateConnectionsSVG fmt cfg (connections layout) @
     js ''\<newline>'' @
     js ''  '' @
     generateMarriagesSVG fmt cfg (marriages layout) @
     js ''\<newline>'' @
     js ''  '' @
     generatePeople fmt cfg (people layout) @
     js ''\<newline>'' @
     js ''</svg>'')"

section \<open>SVGRenderingService\<close>

subsection \<open>validateProject\<close>

text \<open>
  \<open>project.members[k]\<close> read as a condition. The record of members is a plain object:
  besides its own entries (member objects, all true as conditions) the lookup finds the
  properties that every plain object inherits, which are functions or objects and so
  true as conditions as well.
\<close>

definition inheritedKeys :: "jsstring list" where
  "inheritedKeys =
     [js ''constructor'', js ''hasOwnProperty'', js ''isPrototypeOf'',
      js ''propertyIsEnumerable'', js ''toLocaleString'', js ''toString'', js ''valueOf'',
      js ''__proto__'', js ''__defineGetter__'', js ''__defineSetter__'',
      js ''__lookupGetter__'', js ''__lookupSetter__'']"

definition hasMember :: "FamilyProject \<Rightarrow> jsstring \<Rightarrow> bool" where
  "hasMember project k = (map_of (members project) k \<noteq> None \<or> k \<in> set inheritedKeys)"

definition mainPersonErrors :: "FamilyProject \<Rightarrow> jsstring list" where
  "mainPersonErrors project =
     (if \<not> hasMember project (mainPersonId project)
      then [js ''Main person not found in project members''] else [])"

definition circularErrors :: "FamilyMember \<Rightarrow> jsstring list" where
  "circularErrors m =
     (if mid m \<in> set (foraldrar m)
      then [js ''Member '' @ mid m @ js '' cannot be their own parent''] else []) @
     (if mid m \<in> set (barn m)
      then [js ''Member '' @ mid m @ js '' cannot be their own child''] else [])"

definition parentErrors :: "FamilyProject \<Rightarrow> FamilyMember \<Rightarrow> jsstring list" where
  "parentErrors project m =
     concat (map (\<lambda>parentId.
        if \<not> hasMember project parentId
        then [js ''Parent '' @ parentId @ js '' referenced by '' @ mid m @ js '' does not exist'']
        else []) (foraldrar m))"

definition childErrors :: "FamilyProject \<Rightarrow> FamilyMember \<Rightarrow> jsstring list" where
  "childErrors project m =
     concat (map (\<lambda>childId.
        if \<not> hasMember project childId
        then [js ''Child '' @ childId @ js '' referenced by '' @ mid m @ js '' does not exist'']
        else []) (barn m))"

definition partnerErrors :: "FamilyProject \<Rightarrow> FamilyMember \<Rightarrow> jsstring list" where
  "partnerErrors project m =
     (if truthy (partner m) \<and> \<not> hasMember project (the (partner m))
      then [js ''Partner '' @ the (partner m) @ js '' referenced by '' @ mid m @ js '' does not exist'']
      else [])"

definition brokenErrors :: "FamilyProject \<Rightarrow> FamilyMember \<Rightarrow> jsstring list" where
  "brokenErrors project m = parentErrors project m @ childErrors project m @ partnerErrors project m"

definition validateProject :: "FamilyProject \<Rightarrow> jsstring list" where
  "validateProject project =
     mainPersonErrors project @
     concat (map circularErrors (map snd (members project))) @
     concat (map (brokenErrors project) (map snd (members project)))"

subsection \<open>buildLayoutConfig\<close>

text \<open>The orientation factors 0.8 and 1.2 are taken as the exact rationals.\<close>

definition spacingPreset :: "Spacing \<Rightarrow> PartialLayoutConfig \<Rightarrow> PartialLayoutConfig" where
  "spacingPreset s baseConfig =
     (case s of
        Tight \<Rightarrow> baseConfig\<lparr> o_generationSpacing := Some 60, o_personSpacing := Some 80,
                               o_marriageSpacing := Some 30 \<rparr>
      | Spacious \<Rightarrow> baseConfig\<lparr> o_generationSpacing := Some 100, o_personSpacing := Some 150,
                                  o_marriageSpacing := Some 50 \<rparr>
      | Comfortable \<Rightarrow> baseConfig)"

definition orientationAdjust :: "Orientation \<Rightarrow> PartialLayoutConfig \<Rightarrow> PartialLayoutConfig" where
  "orientationAdjust ori baseConfig =
     (case ori of
        Landscape \<Rightarrow> baseConfig\<lparr>
          o_generationSpacing :=
            Some (of_int \<lfloor>orDefault (o_generationSpacing baseConfig) 80 * (8 / 10)\<rfloor>),
          o_personSpacing :=
            Some (of_int \<lfloor>orDefault (o_personSpacing baseConfig) 120 * (12 / 10)\<rfloor>) \<rparr>
      | Portrait \<Rightarrow> baseConfig)"

definition orOpt :: "'a option \<Rightarrow> 'a option \<Rightarrow> 'a option" where
  "orOpt over base = (case over of None \<Rightarrow> base | Some v \<Rightarrow> Some v)"

text \<open>\<open>{...baseConfig, ...overrides}\<close>: a field of the overrides wins.\<close>

definition spread :: "PartialLayoutConfig \<Rightarrow> PartialLayoutConfig \<Rightarrow> PartialLayoutConfig" where
  "spread baseConfig over = \<lparr>
     o_generationSpacing = orOpt (o_generationSpacing over) (o_generationSpacing baseConfig),
     o_personSpacing = orOpt (o_personSpacing over) (o_personSpacing baseConfig),
     o_marriageSpacing = orOpt (o_marriageSpacing over) (o_marriageSpacing baseConfig),
     o_fontSize = orOpt (o_fontSize over) (o_fontSize baseConfig),
     o_fontFamily = orOpt (o_fontFamily over) (o_fontFamily baseConfig),
     o_marginTop = orOpt (o_marginTop over) (o_marginTop baseConfig),
     o_marginBottom = orOpt (o_marginBottom over) (o_marginBottom baseConfig),
     o_marginLeft = orOpt (o_marginLeft over) (o_marginLeft baseConfig),
     o_marginRight = orOpt (o_marginRight over) (o_marginRight baseConfig),
     o_titleHeight = orOpt (o_titleHeight over) (o_titleHeight baseConfig),
     o_lineColor = orOpt (o_lineColor over) (o_lineColor baseConfig),
     o_lineWidth = orOpt (o_lineWidth over) (o_lineWidth baseConfig) \<rparr>"

definition buildLayoutConfig :: "FamilyProject \<Rightarrow> PartialLayoutConfig option \<Rightarrow> PartialLayoutConfig" where
  "buildLayoutConfig project overrides =
     (let baseConfig = noOverrides\<lparr>
            o_fontSize := Some (orDefault (fontSizeNames (settings project)) 16),
            o_fontFamily := Some (fontFamilyName (settings project)),
            o_lineColor := Some (colorLines (settings project)),
            o_lineWidth := Some 1 \<rparr>;
          spaced = spacingPreset (spacing (settings project)) baseConfig;
          oriented = orientationAdjust (orientation (settings project)) spaced
      in spread oriented (orElse overrides noOverrides))"

subsection \<open>renderFamilyTree\<close>

record RenderMetadata =
  mdimensions :: Dimensions
  peopleCount :: nat
  generationCount :: nat
  renderTime :: rat

record SVGRenderResult =
  svg :: jsstring
  metadata :: RenderMetadata

text \<open>
  The result of the promise: \<open>Inr\<close> the render result, \<open>Inl\<close> the message of the
  error thrown. \<open>elapsed\<close> is the measured duration. The function goes from the
  configuration straight to layout and serialization; none of these stages raises
  in this model, so the rethrow of the \<open>catch\<close> block has no source here.
\<close>

definition renderFamilyTree ::
  "(rat \<Rightarrow> jsstring) \<Rightarrow> rat \<Rightarrow> FamilyProject \<Rightarrow> PartialLayoutConfig option
     \<Rightarrow> jsstring + SVGRenderResult" where
  "renderFamilyTree fmt elapsed project layoutOption =
     (let layoutConfig = newConfig (buildLayoutConfig project layoutOption);
          layout = generateLayout layoutConfig (map snd (members project));
          doc = generateSVG fmt layoutConfig project layout
      in Inr \<lparr> svg = doc,
               metadata = \<lparr> mdimensions = dimensions layout,
                            peopleCount = length (map fst (members project)),
                            generationCount = length (generations layout),
                            renderTime = elapsed \<rparr> \<rparr>)"

section \<open>ProjectValidation.validateProject\<close>

text \<open>The validation of shared/types/FamilyProject.ts, on a project whose fields are all
  present (so the branch for a missing members object has no source here).\<close>

definition isValidProjectId :: "jsstring \<Rightarrow> bool" where
  "isValidProjectId s =
     ((case s of
         [] \<Rightarrow> False
       | c # cs \<Rightarrow> (0x61 \<le> c \<and> c \<le> 0x7A)
           \<and> list_all (\<lambda>d. (0x61 \<le> d \<and> d \<le> 0x7A) \<or> (0x30 \<le> d \<and> d \<le> 0x39) \<or> d = 0x2D) cs)
      \<and> length s \<ge> 3 \<and> length s \<le> 50)"

text \<open>The characters that \<open>trim()\<close> removes: white space and line terminators.\<close>

definition isWhiteSpace :: "jschar \<Rightarrow> bool" where
  "isWhiteSpace c =
     (c \<in> set [0x09, 0x0A, 0x0B, 0x0C, 0x0D, 0x20, 0xA0, 0x1680, 0x2028, 0x2029, 0x202F,
               0x205F, 0x3000, 0xFEFF]
      \<or> (0x2000 \<le> c \<and> c \<le> 0x200A))"

definition selfReferenceErrors :: "FamilyMember \<Rightarrow> jsstring list" where
  "selfReferenceErrors m =
     (if mid m \<in> set (foraldrar m)
      then [js ''Member '' @ mid m @ js '' cannot be their own parent''] else []) @
     (if mid m \<in> set (barn m)
      then [js ''Member '' @ mid m @ js '' cannot be their own child''] else []) @
     (if partner m = Some (mid m)
      then [js ''Member '' @ mid m @ js '' cannot be their own partner''] else [])"

definition ProjectValidation_validateProject :: "FamilyProject \<Rightarrow> jsstring list" where
  "ProjectValidation_validateProject project =
     (if pid project = [] then [js ''Project ID is required'']
      else if \<not> isValidProjectId (pid project)
      then [js ''Project ID must be lowercase alphanumeric with dashes, 3-50 characters'']
      else []) @
     (if pname project = [] \<or> list_all isWhiteSpace (pname project)
      then [js ''Project name is required''] else []) @
     (if mainPersonId project = [] then [js ''Main person ID is required''] else []) @
     (if mainPersonId project \<noteq> [] \<and> \<not> hasMember project (mainPersonId project)
      then [js ''Main person must exist in members''] else []) @
     concat (map selfReferenceErrors (map snd (members project)))"

section \<open>ProjectService.getProject\<close>

text \<open>What reading and parsing the project file gave: no such file, another failure
  with its message, or the stored project.\<close>

datatype StoreRead = NoSuchFile | ReadFailure jsstring | Stored FamilyProject

text \<open>The result of the promise: \<open>Inr\<close> the project or null, \<open>Inl\<close> the message of
  the error thrown. An invalid stored project is an error.\<close>

definition getProject :: "jsstring \<Rightarrow> StoreRead \<Rightarrow> jsstring + FamilyProject option" where
  "getProject ident fileRead =
     (case fileRead of
        NoSuchFile \<Rightarrow> Inr None
      | ReadFailure message \<Rightarrow>
          Inl (js ''Failed to get project '' @ ident @ js '': '' @ message)
      | Stored project \<Rightarrow>
          let errors = ProjectValidation_validateProject project
          in if length errors > 0
             then Inl (js ''Failed to get project '' @ ident @ js '': '' @
                       js ''Invalid project data: '' @ joinWith (js '', '') errors)
             else Inr (Some project))"

section \<open>Route GET /:id/tree/svg\<close>

datatype HttpResponse =
    NotFound404
  | BadRequest400 "jsstring list"
  | SvgDocument200 jsstring
  | InternalServerError500 jsstring

text \<open>\<open>error.message || 'Failed to render SVG'\<close>\<close>

definition orFailedToRender :: "jsstring \<Rightarrow> jsstring" where
  "orFailedToRender message = (if message = [] then js ''Failed to render SVG'' else message)"

text \<open>\<open>ident\<close> is the route parameter, \<open>fileRead\<close> what the store read under it.\<close>

definition getTreeSvg ::
  "(rat \<Rightarrow> jsstring) \<Rightarrow> rat \<Rightarrow> jsstring \<Rightarrow> StoreRead \<Rightarrow> HttpResponse" where
  "getTreeSvg fmt elapsed ident fileRead =
     (case getProject ident fileRead of
        Inl message \<Rightarrow> InternalServerError500 (orFailedToRender message)
      | Inr None \<Rightarrow> NotFound404
      | Inr (Some project) \<Rightarrow>
          let validationErrors = validateProject project
          in if length validationErrors > 0 then BadRequest400 validationErrors
             else (case renderFamilyTree fmt elapsed project None of
                     Inl message \<Rightarrow> InternalServerError500 (orFailedToRender message)
                   | Inr result \<Rightarrow> SvgDocument200 (svg result)))"

section \<open>Auxiliary notions\<close>

text \<open>Every member stored under a generation key has that generation.\<close>

definition bandsSound :: "(rat \<times> FamilyMember list) list \<Rightarrow> bool" where
  "bandsSound gm = (\<forall>e \<in> set gm. \<forall>m \<in> set (snd e). generation m = fst e)"








text \<open>Decimal text of a number with a finite decimal expansion of at most 17 fraction
  digits: sign, integer digits and, when the number is not integral, a point and the
  fraction digits. It stands for the runtime's number conversion in the closed examples
  below, whose numbers are integers and halves.\<close>

fun digitsOf :: "nat \<Rightarrow> jsstring" where
  "digitsOf n = (if n < 10 then [of_nat (48 + n)]
                 else digitsOf (n div 10) @ [of_nat (48 + n mod 10)])"

fun fractionDigits :: "nat \<Rightarrow> rat \<Rightarrow> jsstring" where
  "fractionDigits 0 r = []"
| "fractionDigits (Suc n) r =
     (if r = 0 then []
      else of_nat (48 + nat \<lfloor>r * 10\<rfloor>) # fractionDigits n (r * 10 - of_int \<lfloor>r * 10\<rfloor>))"

definition decimalText :: "rat \<Rightarrow> jsstring" where
  "decimalText r =
     (if r < 0 then js ''-'' else []) @ digitsOf (nat \<lfloor>\<bar>r\<bar>\<rfloor>) @
     (if \<bar>r\<bar> = of_int \<lfloor>\<bar>r\<bar>\<rfloor> then []
      else js ''.'' @ fractionDigits 17 (\<bar>r\<bar> - of_int \<lfloor>\<bar>r\<bar>\<rfloor>))"

text \<open>Notions for the marriage connections: the id pair of a connection and of a
  partnered member, the pair key of a member, the number of connections with a given id
  pair, the state of the deduplication loop after a list of members, and a connection
  that stems from a member.\<close>

definition pairOf :: "MarriageConnection \<Rightarrow> jsstring set" where
  "pairOf c = {mid (pmember (person1 c)), mid (pmember (person2 c))}"

definition pairCount :: "jsstring set \<Rightarrow> MarriageConnection list \<Rightarrow> nat" where
  "pairCount P cs = length (filter (\<lambda>c. pairOf c = P) cs)"

definition couple :: "FamilyMember \<Rightarrow> jsstring set" where
  "couple m = {mid m, the (partner m)}"

definition keyOf :: "FamilyMember \<Rightarrow> jsstring" where
  "keyOf m = pairKey (mid m) (the (partner m))"

definition dedupInv :: "FamilyMember list \<Rightarrow> jsstring list \<times> MarriageConnection list \<Rightarrow> bool" where
  "dedupInv seen st =
     (set (fst st) = keyOf ` {m \<in> set seen. truthy (partner m)}
      \<and> (\<forall>P. pairCount P (snd st)
             = (if \<exists>m \<in> set seen. truthy (partner m) \<and> couple m = P then 1 else 0)))"

definition fromMember :: "(jsstring \<rightharpoonup> PersonLayout) \<Rightarrow> FamilyMember set \<Rightarrow> MarriageConnection \<Rightarrow> bool" where
  "fromMember lm S c =
     (\<exists>m \<in> S. truthy (partner m) \<and> lm (mid m) = Some (person1 c)
        \<and> lm (the (partner m)) = Some (person2 c)
        \<and> symbolX c = (px (person1 c) + px (person2 c)) / 2
        \<and> symbolY c = (py (person1 c) + py (person2 c)) / 2)"

section \<open>The test family\<close>

text \<open>\<open>createSimpleFamily\<close> of tests/unit/svg-rendering.test.ts, with
  \<open>DEFAULT_PROJECT_SETTINGS\<close>.\<close>

definition john :: FamilyMember where
  "john = \<lparr> mid = js ''john'', namn = js ''John'', kon = Man, generation = 0,
     foraldrar = [], barn = [js ''child''], partner = Some (js ''jane''),
     status = Levande, anteckningar = js ''Father'' \<rparr>"

definition jane :: FamilyMember where
  "jane = \<lparr> mid = js ''jane'', namn = js ''Jane'', kon = Kvinna, generation = 0,
     foraldrar = [], barn = [js ''child''], partner = Some (js ''john''),
     status = Levande, anteckningar = js ''Mother'' \<rparr>"

definition child :: FamilyMember where
  "child = \<lparr> mid = js ''child'', namn = js ''Child'', kon = Other, generation = 1,
     foraldrar = [js ''john'', js ''jane''], barn = [], partner = None,
     status = Levande, anteckningar = js ''Child of John and Jane'' \<rparr>"

definition defaultProjectSettings :: ProjectSettings where
  "defaultProjectSettings = \<lparr>
     fontFamilyName = js ''Dancing Script'',
     fontFallbacks = [js ''Lucida Handwriting'', js ''Apple Chancery'', js ''cursive'', js ''serif''],
     fontSizeTitle = Some 32,
     fontSizeNames = Some 16,
     orientation = Portrait,
     colorBackground = js ''#f4f1e8'',
     colorText = js ''#5a4a3a'',
     colorLines = js ''#8b7355'',
     colorAccent = js ''#d4c4a8'',
     showCornerDecorations = True,
     spacing = Comfortable \<rparr>"

definition simpleFamily :: FamilyProject where
  "simpleFamily = \<lparr> pid = js ''test-family'', pname = js ''Test Family'',
     mainPersonId = js ''child'',
     members = [(js ''john'', john), (js ''jane'', jane), (js ''child'', child)],
     settings = defaultProjectSettings \<rparr>"

text \<open>The test family with a focal person id that no member has, and a project whose
  only member names itself as partner.\<close>

definition nobodyMain :: FamilyProject where
  "nobodyMain = simpleFamily\<lparr> mainPersonId := js ''nobody'' \<rparr>"

definition solo :: FamilyMember where
  "solo = \<lparr> mid = js ''solo'', namn = js ''Solo'', kon = Other, generation = 0,
     foraldrar = [], barn = [], partner = Some (js ''solo''),
     status = Levande, anteckningar = [] \<rparr>"

definition selfPartnered :: FamilyProject where
  "selfPartnered = \<lparr> pid = js ''self-partner'', pname = js ''Self Partner'',
     mainPersonId = js ''solo'', members = [(js ''solo'', solo)],
     settings = defaultProjectSettings \<rparr>"

text \<open>The test family with a parent id of the child that no member has.\<close>

definition danglingParent :: FamilyProject where
  "danglingParent = simpleFamily\<lparr> members :=
     [(js ''john'', john), (js ''jane'', jane),
      (js ''child'', child\<lparr> foraldrar := [js ''john'', js ''jane'', js ''ghost''] \<rparr>)] \<rparr>"

section \<open>The cursor algorithm of the specification\<close>

text \<open>
  The reference algorithm in the specification's words: the cursor starts at the left
  margin; a member's anchor is the cursor plus half its label width; the cursor then
  advances by the label width plus the marriage gap when the next member of the band is
  this member's recorded partner, and by the label width plus the person gap otherwise.
\<close>

fun specAnchors :: "LayoutConfig \<Rightarrow> rat \<Rightarrow> FamilyMember list \<Rightarrow> rat list" where
  "specAnchors cfg cursor [] = []"
| "specAnchors cfg cursor [m] = [cursor + estimateTextWidth cfg (namn m) / 2]"
| "specAnchors cfg cursor (m # nextMember # rest) =
     (cursor + estimateTextWidth cfg (namn m) / 2) #
     specAnchors cfg
       (cursor + estimateTextWidth cfg (namn m) +
          (if partner m = Some (mid nextMember) then marriageSpacing cfg else personSpacing cfg))
       (nextMember # rest)"

definition specBandAnchors :: "LayoutConfig \<Rightarrow> FamilyMember list \<Rightarrow> rat list" where
  "specBandAnchors cfg band = specAnchors cfg (marginLeft cfg) band"

text \<open>A band wider than 400: a couple followed by a third person.\<close>

definition anna :: FamilyMember where
  "anna = \<lparr> mid = js ''anna'', namn = js ''Anna Margareta'', kon = Kvinna, generation = 0,
     foraldrar = [], barn = [], partner = Some (js ''bertil''),
     status = Levande, anteckningar = [] \<rparr>"

definition bertil :: FamilyMember where
  "bertil = \<lparr> mid = js ''bertil'', namn = js ''Bertil Gustav'', kon = Man, generation = 0,
     foraldrar = [], barn = [], partner = Some (js ''anna''),
     status = Levande, anteckningar = [] \<rparr>"

definition cecilia :: FamilyMember where
  "cecilia = \<lparr> mid = js ''cecilia'', namn = js ''Cecilia Berg'', kon = Kvinna, generation = 0,
     foraldrar = [], barn = [], partner = None,
     status = Levande, anteckningar = [] \<rparr>"

text \<open>Two couples whose ids contain the separator of the pair key.\<close>

definition dashAB :: FamilyMember where
  "dashAB = \<lparr> mid = js ''a-b'', namn = js ''Ab'', kon = Kvinna, generation = 0,
     foraldrar = [], barn = [], partner = Some (js ''c''),
     status = Levande, anteckningar = [] \<rparr>"

definition plainC :: FamilyMember where
  "plainC = \<lparr> mid = js ''c'', namn = js ''Cc'', kon = Man, generation = 0,
     foraldrar = [], barn = [], partner = Some (js ''a-b''),
     status = Levande, anteckningar = [] \<rparr>"

definition plainA :: FamilyMember where
  "plainA = \<lparr> mid = js ''a'', namn = js ''Aa'', kon = Kvinna, generation = 0,
     foraldrar = [], barn = [], partner = Some (js ''b-c''),
     status = Levande, anteckningar = [] \<rparr>"

definition dashBC :: FamilyMember where
  "dashBC = \<lparr> mid = js ''b-c'', namn = js ''Bc'', kon = Man, generation = 0,
     foraldrar = [], barn = [], partner = Some (js ''a''),
     status = Levande, anteckningar = [] \<rparr>"


section \<open>Properties\<close>

subsection \<open>Auxiliary facts\<close>



subsection \<open>Escaping of names (C1)\<close>







lemma sublist_chain: "sublist a b \<Longrightarrow> sublist b c \<Longrightarrow> sublist a c"
  unfolding sublist_def by (metis append.assoc)

lemma sublist_skip: "sublist a c \<Longrightarrow> sublist a (b @ c)"
  by (erule sublist_chain) (rule sublist_append_leftI)



lemma sublist_joinWith: "x \<in> set xs \<Longrightarrow> sublist x (joinWith sep xs)"
proof (induction sep xs rule: joinWith.induct)
  case (1 sep)
  then show ?case by simp
next
  case (2 sep s)
  then show ?case by simp
next
  case (3 sep s t rest)
  show ?case
  proof (cases "x = s")
    case True
    then show ?thesis by simp
  next
    case False
    with 3 have "sublist x (joinWith sep (t # rest))" by simp
    then have "sublist x ((s @ sep) @ joinWith sep (t # rest))"
      by (rule sublist_chain) (rule sublist_append_leftI)
    then show ?thesis by simp
  qed
qed

lemma sublist_personElement:
  "sublist (escapeXML (namn (pmember p))) (personElement fmt cfg p)"
  unfolding personElement_def by (rule sublist_append_rightI | rule sublist_skip)+




















subsection \<open>Generation bands (C5)\<close>

lemma addToGenerationMap_keys:
  "map fst (addToGenerationMap m acc) =
     (if generation m \<in> set (map fst acc) then map fst acc else map fst acc @ [generation m])"
  by (induction acc) (auto simp add: rev_image_eqI)

lemma fold_addToGenerationMap_keys_set:
  "set (map fst (fold addToGenerationMap ms acc)) = set (map fst acc) \<union> generation ` set ms"
proof (induction ms arbitrary: acc)
  case Nil
  show ?case by simp
next
  case (Cons m ms)
  have "set (map fst (addToGenerationMap m acc)) = insert (generation m) (set (map fst acc))"
    by (auto simp add: addToGenerationMap_keys)
  then show ?case using Cons.IH [of "addToGenerationMap m acc"] by auto
qed

lemma fold_addToGenerationMap_keys_distinct:
  "distinct (map fst acc) \<Longrightarrow> distinct (map fst (fold addToGenerationMap ms acc))"
proof (induction ms arbitrary: acc)
  case Nil
  then show ?case by simp
next
  case (Cons m ms)
  have "distinct (map fst (addToGenerationMap m acc))"
    using Cons.prems by (simp add: addToGenerationMap_keys)
  then show ?case using Cons.IH by simp
qed

lemma addToGenerationMap_sound:
  "bandsSound acc \<Longrightarrow> bandsSound (addToGenerationMap m acc)"
  unfolding bandsSound_def by (induction acc) (auto split: if_splits)

lemma fold_addToGenerationMap_sound:
  "bandsSound acc \<Longrightarrow> bandsSound (fold addToGenerationMap ms acc)"
  by (induction ms arbitrary: acc) (simp_all add: addToGenerationMap_sound)

lemma generationMapOf_keys_set: "set (map fst (generationMapOf ms)) = generation ` set ms"
  by (simp add: generationMapOf_def fold_addToGenerationMap_keys_set del: set_map)

lemma generationMapOf_keys_distinct: "distinct (map fst (generationMapOf ms))"
  by (simp add: generationMapOf_def fold_addToGenerationMap_keys_distinct)

lemma generationMapOf_sound: "bandsSound (generationMapOf ms)"
proof -
  have "bandsSound []" by (simp add: bandsSound_def)
  then show ?thesis unfolding generationMapOf_def by (rule fold_addToGenerationMap_sound)
qed

lemma sortedGens_eq:
  "sort (map fst (generationMapOf ms)) = sorted_list_of_set (generation ` set ms)"
  using generationMapOf_keys_distinct [of ms] generationMapOf_keys_set [of ms]
  by (metis sorted_list_of_set_sort_remdups distinct_remdups_id)

lemma band_members_generation:
  "m \<in> set (orElse (map_of (generationMapOf ms) g) []) \<Longrightarrow> generation m = g"
proof -
  assume a: "m \<in> set (orElse (map_of (generationMapOf ms) g) [])"
  then obtain xs where x: "map_of (generationMapOf ms) g = Some xs" "m \<in> set xs"
    by (cases "map_of (generationMapOf ms) g") (auto simp add: orElse_def)
  then have "(g, xs) \<in> set (generationMapOf ms)" by (auto dest: map_of_SomeD)
  with generationMapOf_sound [of ms] x(2) show ?thesis
    unfolding bandsSound_def by fastforce
qed

lemma placeMembers_members:
  "map pmember (fst (placeMembers cfg gm y c ms)) = ms"
  by (induction ms arbitrary: c) (simp_all add: Let_def)

lemma placeMembers_py:
  "l \<in> set (fst (placeMembers cfg gm y c ms)) \<Longrightarrow> py l = y"
  by (induction ms arbitrary: c) (auto simp add: Let_def)

lemma strict_sorted_card_less:
  fixes xs :: "rat list"
  assumes "sorted xs" "distinct xs" "i < length xs"
  shows "card {h \<in> set xs. h < xs ! i} = i"
proof -
  have ss: "sorted_wrt (<) xs" using assms(1,2) by (simp add: strict_sorted_iff)
  have "{h \<in> set xs. h < xs ! i} = set (take i xs)"
  proof (rule set_eqI, rule iffI)
    fix h assume "h \<in> {h \<in> set xs. h < xs ! i}"
    then obtain j where j: "j < length xs" "xs ! j = h" "h < xs ! i"
      by (auto simp add: in_set_conv_nth)
    have "j < i"
    proof (rule ccontr)
      assume "\<not> j < i"
      then have "i \<le> j" by simp
      then have "xs ! i \<le> xs ! j" using assms(1) j(1) by (simp add: sorted_nth_mono)
      with j show False by simp
    qed
    then show "h \<in> set (take i xs)" using j assms(3)
      by (auto simp add: in_set_conv_nth intro!: exI [of _ j])
  next
    fix h assume "h \<in> set (take i xs)"
    then obtain j where j: "j < i" "xs ! j = h" using assms(3)
      by (auto simp add: in_set_conv_nth)
    then have "xs ! j < xs ! i" using sorted_wrt_nth_less [OF ss _ assms(3), of j] by simp
    with j assms(3) show "h \<in> {h \<in> set xs. h < xs ! i}" by auto
  qed
  moreover have "card (set (take i xs)) = i"
    using assms(2,3) by (simp add: distinct_card)
  ultimately show ?thesis by simp
qed

lemma groupByGeneration_nth:
  assumes "i < length (sorted_list_of_set (generation ` set ms))"
  shows "groupByGeneration cfg ms ! i =
    bandAt cfg (generationMapOf ms) (i, sorted_list_of_set (generation ` set ms) ! i)"
  using assms by (simp add: groupByGeneration_def Let_def sortedGens_eq nth_enumerate_eq)

lemma groupByGeneration_length:
  "length (groupByGeneration cfg ms) = length (sorted_list_of_set (generation ` set ms))"
  by (simp add: groupByGeneration_def Let_def sortedGens_eq)

lemma people_band:
  assumes "p \<in> set (people (generateLayout cfg ms))"
  shows "\<exists>i < length (sorted_list_of_set (generation ` set ms)).
           py p = titleHeight cfg + marginTop cfg + of_nat i * generationSpacing cfg
           \<and> generation (pmember p) = sorted_list_of_set (generation ` set ms) ! i"
proof -
  let ?S = "sorted_list_of_set (generation ` set ms)"
  from assms obtain g where g: "g \<in> set (groupByGeneration cfg ms)"
      "p \<in> set (fst (placeGeneration cfg g))"
    by (auto simp add: generateLayout_def calculatePersonPositions_def Let_def)
  then obtain i where i: "i < length ?S" "g = groupByGeneration cfg ms ! i"
    by (auto simp add: in_set_conv_nth groupByGeneration_length)
  then have gb: "g = bandAt cfg (generationMapOf ms) (i, ?S ! i)"
    by (simp add: groupByGeneration_nth)
  from g(2) have y: "py p = yPosition g"
    by (auto simp add: placeGeneration_def Let_def dest: placeMembers_py)
  from g(2) have "pmember p \<in> set (gmembers g)"
    using placeMembers_members [of cfg "gmembers g" "yPosition g" "startX cfg (gmembers g)" "gmembers g"]
    by (auto simp add: placeGeneration_def Let_def) (metis imageI list.set_map)
  then have "generation (pmember p) = ?S ! i"
    using gb by (auto simp add: bandAt_def dest: band_members_generation)
  moreover have "py p = titleHeight cfg + marginTop cfg + of_nat i * generationSpacing cfg"
    using y gb by (simp add: bandAt_def)
  ultimately show ?thesis using i(1) by blast
qed

lemma bands_depend_on_generations:
  "map (\<lambda>g. (ggeneration g, yPosition g)) (groupByGeneration cfg ms) =
     map (\<lambda>ig. (snd ig, titleHeight cfg + marginTop cfg + of_nat (fst ig) * generationSpacing cfg))
       (enumerate 0 (sorted_list_of_set (generation ` set ms)))"
  by (simp add: groupByGeneration_def Let_def sortedGens_eq bandAt_def split_def comp_def)

text \<open>
  C5: every placement's y is title height + top margin + band index times generation
  spacing, where the band index is the number of distinct generation values of the
  snapshot below the person's own, that is the zero-based position of the person's band
  among the bands in ascending generation order; the bands come in ascending order of
  generation value; and two member lists with the same set of generation values,
  whatever their order, give the same bands with the same y coordinates.
\<close>

theorem band_y_by_generation_rank:
  "(\<forall>p \<in> set (people (generateLayout cfg ms)).
      py p = titleHeight cfg + marginTop cfg
             + of_nat (card {h \<in> generation ` set ms. h < generation (pmember p)})
               * generationSpacing cfg)
   \<and> map ggeneration (groupByGeneration cfg ms) = sorted_list_of_set (generation ` set ms)
   \<and> (generation ` set ms = generation ` set ms' \<longrightarrow>
        map (\<lambda>g. (ggeneration g, yPosition g)) (groupByGeneration cfg ms)
        = map (\<lambda>g. (ggeneration g, yPosition g)) (groupByGeneration cfg ms'))"
proof (intro conjI ballI impI)
  fix p assume "p \<in> set (people (generateLayout cfg ms))"
  then obtain i where i: "i < length (sorted_list_of_set (generation ` set ms))"
      "py p = titleHeight cfg + marginTop cfg + of_nat i * generationSpacing cfg"
      "generation (pmember p) = sorted_list_of_set (generation ` set ms) ! i"
    using people_band by blast
  have "card {h \<in> set (sorted_list_of_set (generation ` set ms)).
               h < sorted_list_of_set (generation ` set ms) ! i} = i"
    by (rule strict_sorted_card_less [OF _ _ i(1)]) simp_all
  then have "card {h \<in> generation ` set ms. h < generation (pmember p)} = i"
    by (simp add: i(3))
  then show "py p = titleHeight cfg + marginTop cfg
             + of_nat (card {h \<in> generation ` set ms. h < generation (pmember p)})
               * generationSpacing cfg"
    using i(2) by simp
next
  show "map ggeneration (groupByGeneration cfg ms) = sorted_list_of_set (generation ` set ms)"
    by (simp add: groupByGeneration_def Let_def sortedGens_eq bandAt_def split_def comp_def
        map_snd_enumerate)
next
  assume "generation ` set ms = generation ` set ms'"
  then show "map (\<lambda>g. (ggeneration g, yPosition g)) (groupByGeneration cfg ms)
        = map (\<lambda>g. (ggeneration g, yPosition g)) (groupByGeneration cfg ms')"
    by (simp add: bands_depend_on_generations)
qed


theorem band_y_by_generation_rank_witness:
  "last (people (generateLayout (newConfig noOverrides) [john, jane, child]))
     \<in> set (people (generateLayout (newConfig noOverrides) [john, jane, child]))
   \<and> py (last (people (generateLayout (newConfig noOverrides) [john, jane, child])))
       = titleHeight (newConfig noOverrides) + marginTop (newConfig noOverrides)
         + of_nat (card {h \<in> generation ` set [john, jane, child].
              h < generation (pmember (last (people
                    (generateLayout (newConfig noOverrides) [john, jane, child]))))})
           * generationSpacing (newConfig noOverrides)
   \<and> generation ` set [john, jane, child] = generation ` set [child, jane, john]
   \<and> map (\<lambda>g. (ggeneration g, yPosition g))
         (groupByGeneration (newConfig noOverrides) [john, jane, child])
       = map (\<lambda>g. (ggeneration g, yPosition g))
         (groupByGeneration (newConfig noOverrides) [child, jane, john])"
proof -
  have ne: "people (generateLayout (newConfig noOverrides) [john, jane, child]) \<noteq> []"
    by (simp add: generateLayout_def groupByGeneration_def generationMapOf_def
        calculatePersonPositions_def placeGeneration_def bandAt_def orElse_def Let_def
        john_def jane_def child_def)
  have mem: "last (people (generateLayout (newConfig noOverrides) [john, jane, child]))
     \<in> set (people (generateLayout (newConfig noOverrides) [john, jane, child]))"
    using ne by (rule last_in_set)
  have eq: "generation ` set [john, jane, child] = generation ` set [child, jane, john]"
    by (simp add: john_def jane_def child_def insert_commute)
  from band_y_by_generation_rank [of "newConfig noOverrides" "[john, jane, child]" "[child, jane, john]"]
    mem eq show ?thesis by blast
qed

subsection \<open>Evaluation of the test family\<close>

lemmas ev = generateLayout_def groupByGeneration_def generationMapOf_def
      calculatePersonPositions_def generateConnections_def generateMarriages_def Let_def
      john_def jane_def child_def newConfig_def noOverrides_def orElse_def
      bandAt_def placeGeneration_def startX_def calculateTotalWidthForGeneration_def
      estimateTextWidth_def avgCharWidth_def hasSpouseIn_def truthy_def js_def
      layoutMapOf_def connectionsOf_def parentConnection_def marriageStep_def pairKey_def marriageOf_def

lemma simpleFamily_counts:
  "length (generations (generateLayout (newConfig noOverrides) [john, jane, child])) = 2
   \<and> length (connections (generateLayout (newConfig noOverrides) [john, jane, child])) = 2
   \<and> length (marriages (generateLayout (newConfig noOverrides) [john, jane, child])) = 1"
  by (simp add: ev)

lemma buildLayoutConfig_default:
  "settings p = defaultProjectSettings \<Longrightarrow>
   newConfig (buildLayoutConfig p None) = newConfig noOverrides"
  by (simp add: buildLayoutConfig_def defaultProjectSettings_def spacingPreset_def
      orientationAdjust_def spread_def orOpt_def orElse_def orDefault_def noOverrides_def
      newConfig_def Let_def js_def)


lemma decimalText_examples:
  "decimalText (595 / 2) = js ''297.5'' \<and> decimalText 842 = js ''842''
   \<and> decimalText (- 3 / 4) = js ''-0.75''"
  by code_simp

subsection \<open>Validation (C3)\<close>

lemmas vdefs = validateProject_def mainPersonErrors_def circularErrors_def brokenErrors_def
  parentErrors_def childErrors_def partnerErrors_def hasMember_def inheritedKeys_def truthy_def


lemma validateProject_reports_own_parent:
  assumes "(k, m) \<in> set (members project)" "mid m \<in> set (foraldrar m)"
  shows "js ''Member '' @ mid m @ js '' cannot be their own parent'' \<in> set (validateProject project)"
proof -
  have "js ''Member '' @ mid m @ js '' cannot be their own parent'' \<in> set (circularErrors m)"
    using assms(2) by (simp add: circularErrors_def)
  moreover have "m \<in> set (map snd (members project))"
    using assms(1) by force
  ultimately show ?thesis
    unfolding validateProject_def by auto
qed

lemma hasMember_inherited_key:
  "hasMember simpleFamily (js ''constructor'') \<and> \<not> hasMember simpleFamily (js ''ghost'')"
  by (simp add: hasMember_def inheritedKeys_def simpleFamily_def js_def)

text \<open>
  C3 at the input where the code departs from it: a project whose only member has its
  own id as partner passes validation with an empty error list. The partner check looks
  only for a partner id that is missing from the member record.
\<close>

theorem validateProject_accepts_self_partner: "validateProject selfPartnered = []"
  by (simp add: vdefs selfPartnered_def solo_def js_def)


subsection \<open>Validation and rendering (C2)\<close>

lemma vp_nobody: "validateProject nobodyMain = [js ''Main person not found in project members'']"
  by (simp add: vdefs nobodyMain_def simpleFamily_def john_def jane_def child_def js_def)


lemmas pvdefs = ProjectValidation_validateProject_def selfReferenceErrors_def
  isValidProjectId_def isWhiteSpace_def hasMember_def inheritedKeys_def

lemma simpleFamily_stored_valid: "ProjectValidation_validateProject simpleFamily = []"
  by (simp add: pvdefs simpleFamily_def john_def jane_def child_def js_def)

lemma simpleFamily_valid: "validateProject simpleFamily = []"
  by (simp add: vdefs simpleFamily_def john_def jane_def child_def js_def)

lemma nobodyMain_stored_invalid:
  "ProjectValidation_validateProject nobodyMain = [js ''Main person must exist in members'']"
  by (simp add: pvdefs nobodyMain_def simpleFamily_def john_def jane_def child_def js_def)

lemma danglingParent_stored_valid: "ProjectValidation_validateProject danglingParent = []"
  by (simp add: pvdefs danglingParent_def simpleFamily_def john_def jane_def child_def js_def)

lemma danglingParent_invalid:
  "validateProject danglingParent = [js ''Parent ghost referenced by child does not exist'']"
  by (simp add: vdefs danglingParent_def simpleFamily_def john_def jane_def child_def js_def)

text \<open>
  C2, as the code has it: the route GET /:id/tree/svg answers with a document only for a
  stored project that passes the store's own validation and whose structural-validation
  error list is empty, and then with the document that renderFamilyTree returns; for a
  stored project whose list is non-empty it produces no document: it answers 400 with
  that list, or 500 when loading the project already failed the store's validation.
\<close>

theorem route_renders_only_valid_projects:
  "(getTreeSvg fmt elapsed ident fileRead = SvgDocument200 doc \<longrightarrow>
      (\<exists>project r. fileRead = Stored project
          \<and> ProjectValidation_validateProject project = [] \<and> validateProject project = []
          \<and> renderFamilyTree fmt elapsed project None = Inr r \<and> doc = svg r))
   \<and> (validateProject project \<noteq> [] \<and> ProjectValidation_validateProject project = [] \<longrightarrow>
        getTreeSvg fmt elapsed ident (Stored project) = BadRequest400 (validateProject project))
   \<and> (ProjectValidation_validateProject project \<noteq> [] \<longrightarrow>
        getTreeSvg fmt elapsed ident (Stored project)
          = InternalServerError500 (js ''Failed to get project '' @ ident @ js '': '' @
              js ''Invalid project data: '' @
              joinWith (js '', '') (ProjectValidation_validateProject project)))
   \<and> (validateProject project = [] \<and> ProjectValidation_validateProject project = [] \<longrightarrow>
        (\<exists>r. renderFamilyTree fmt elapsed project None = Inr r
           \<and> getTreeSvg fmt elapsed ident (Stored project) = SvgDocument200 (svg r)))"
proof -
  have a: "getTreeSvg fmt elapsed ident fileRead = SvgDocument200 doc \<longrightarrow>
      (\<exists>project r. fileRead = Stored project
          \<and> ProjectValidation_validateProject project = [] \<and> validateProject project = []
          \<and> renderFamilyTree fmt elapsed project None = Inr r \<and> doc = svg r)"
    by (cases fileRead)
       (auto simp add: getTreeSvg_def getProject_def Let_def renderFamilyTree_def
          split: if_splits)
  have b: "validateProject project \<noteq> [] \<and> ProjectValidation_validateProject project = [] \<longrightarrow>
        getTreeSvg fmt elapsed ident (Stored project) = BadRequest400 (validateProject project)"
    by (simp add: getTreeSvg_def getProject_def Let_def)
  have c: "ProjectValidation_validateProject project \<noteq> [] \<longrightarrow>
        getTreeSvg fmt elapsed ident (Stored project)
          = InternalServerError500 (js ''Failed to get project '' @ ident @ js '': '' @
              js ''Invalid project data: '' @
              joinWith (js '', '') (ProjectValidation_validateProject project))"
    by (simp add: getTreeSvg_def getProject_def Let_def orFailedToRender_def js_def)
  have d: "validateProject project = [] \<and> ProjectValidation_validateProject project = [] \<longrightarrow>
        (\<exists>r. renderFamilyTree fmt elapsed project None = Inr r
           \<and> getTreeSvg fmt elapsed ident (Stored project) = SvgDocument200 (svg r))"
    by (simp add: getTreeSvg_def getProject_def Let_def renderFamilyTree_def)
  from a b c d show ?thesis by (intro conjI)
qed

theorem route_renders_only_valid_projects_witness:
  "validateProject danglingParent \<noteq> [] \<and> ProjectValidation_validateProject danglingParent = []
   \<and> getTreeSvg decimalText 0 (js ''test-family'') (Stored danglingParent)
       = BadRequest400 (validateProject danglingParent)
   \<and> ProjectValidation_validateProject nobodyMain \<noteq> []
   \<and> getTreeSvg decimalText 0 (js ''test-family'') (Stored nobodyMain)
       = InternalServerError500 (js ''Failed to get project '' @ js ''test-family'' @ js '': '' @
              js ''Invalid project data: '' @
              joinWith (js '', '') (ProjectValidation_validateProject nobodyMain))
   \<and> validateProject simpleFamily = [] \<and> ProjectValidation_validateProject simpleFamily = []
   \<and> (\<exists>r. renderFamilyTree decimalText 0 simpleFamily None = Inr r
          \<and> getTreeSvg decimalText 0 (js ''test-family'') (Stored simpleFamily) = SvgDocument200 (svg r))"
proof -
  have d1: "validateProject danglingParent \<noteq> []" by (simp add: danglingParent_invalid)
  have n1: "ProjectValidation_validateProject nobodyMain \<noteq> []"
    by (simp add: nobodyMain_stored_invalid)
  from route_renders_only_valid_projects
         [of decimalText 0 "js ''test-family''" "Stored danglingParent" "[]" danglingParent]
       d1 danglingParent_stored_valid
  have a: "getTreeSvg decimalText 0 (js ''test-family'') (Stored danglingParent)
       = BadRequest400 (validateProject danglingParent)"
    by blast
  from route_renders_only_valid_projects
         [of decimalText 0 "js ''test-family''" "Stored nobodyMain" "[]" nobodyMain] n1
  have b: "getTreeSvg decimalText 0 (js ''test-family'') (Stored nobodyMain)
       = InternalServerError500 (js ''Failed to get project '' @ js ''test-family'' @ js '': '' @
              js ''Invalid project data: '' @
              joinWith (js '', '') (ProjectValidation_validateProject nobodyMain))"
    by blast
  from route_renders_only_valid_projects
         [of decimalText 0 "js ''test-family''" "Stored simpleFamily" "[]" simpleFamily]
       simpleFamily_valid simpleFamily_stored_valid
  have c: "\<exists>r. renderFamilyTree decimalText 0 simpleFamily None = Inr r
          \<and> getTreeSvg decimalText 0 (js ''test-family'') (Stored simpleFamily) = SvgDocument200 (svg r)"
    by blast
  from d1 danglingParent_stored_valid a n1 b simpleFamily_valid simpleFamily_stored_valid c
  show ?thesis by (intro conjI)
qed

text \<open>
  C2 as stated fails for renderFamilyTree: the test family with a focal person id that
  no member has fails validation, and renderFamilyTree still returns a document for it.
\<close>

theorem renderFamilyTree_ignores_validation_counterexample:
  "validateProject nobodyMain \<noteq> []
   \<and> (case renderFamilyTree decimalText 0 nobodyMain None of
         Inl message \<Rightarrow> False
       | Inr r \<Rightarrow> peopleCount (metadata r) = 3 \<and> generationCount (metadata r) = 2
                 \<and> prefix (js ''<?xml version=\"1.0\" encoding=\"UTF-8\"?>\<newline>'') (svg r))"
proof -
  have cfg: "newConfig (buildLayoutConfig nobodyMain None) = newConfig noOverrides"
    by (rule buildLayoutConfig_default) (simp add: nobodyMain_def simpleFamily_def)
  have ms: "map snd (members nobodyMain) = [john, jane, child]"
    by (simp add: nobodyMain_def simpleFamily_def)
  have "prefix (js ''<?xml version=\"1.0\" encoding=\"UTF-8\"?>\<newline>'')
          (generateSVG decimalText (newConfig noOverrides) nobodyMain
             (generateLayout (newConfig noOverrides) [john, jane, child]))"
    unfolding generateSVG_def Let_def by (rule prefixI) (rule refl)
  moreover have "length (members nobodyMain) = 3"
    by (simp add: nobodyMain_def simpleFamily_def)
  ultimately show ?thesis
    using simpleFamily_counts
    by (simp add: renderFamilyTree_def Let_def cfg ms vp_nobody)
qed


subsection \<open>Parent-child connections (C7)\<close>

lemma concat_map_present:
  "\<forall>k \<in> set ks. lm k \<noteq> None \<Longrightarrow>
   concat (map (\<lambda>k. case lm k of None \<Rightarrow> [] | Some v \<Rightarrow> [f v]) ks) = map (\<lambda>k. f (the (lm k))) ks"
  by (induction ks) auto

lemma connectionsOf_all_placed:
  assumes "lm (mid m) = Some cl" "\<forall>pid \<in> set (foraldrar m). lm pid \<noteq> None"
  shows "connectionsOf lm m = map (\<lambda>pid. parentConnection (the (lm pid)) cl) (foraldrar m)"
  using concat_map_present [OF assms(2), of "\<lambda>pl. parentConnection pl cl"] assms(1)
  by (simp add: connectionsOf_def)

lemma layoutMapOf_fold_dom:
  "dom (fold (\<lambda>layout lm. lm(mid (pmember layout) \<mapsto> layout)) ls acc)
     = dom acc \<union> (\<lambda>l. mid (pmember l)) ` set ls"
  by (induction ls arbitrary: acc) auto

lemma layoutMapOf_dom: "dom (layoutMapOf ls) = (\<lambda>l. mid (pmember l)) ` set ls"
  by (simp add: layoutMapOf_def layoutMapOf_fold_dom)

lemma map_of_addToGenerationMap:
  "map_of (addToGenerationMap m acc) g =
     (if g = generation m then Some (orElse (map_of acc g) [] @ [m]) else map_of acc g)"
  by (induction acc) (auto simp add: orElse_def)

lemma map_of_fold_addToGenerationMap:
  "map_of (fold addToGenerationMap ms acc) g =
     (if map_of acc g = None \<and> g \<notin> generation ` set ms then None
      else Some (orElse (map_of acc g) [] @ filter (\<lambda>m. generation m = g) ms))"
proof (induction ms arbitrary: acc)
  case Nil
  show ?case by (cases "map_of acc g") (simp_all add: orElse_def)
next
  case (Cons m ms)
  show ?case
    by (simp add: Cons.IH map_of_addToGenerationMap orElse_def)
qed

lemma map_of_generationMapOf:
  "map_of (generationMapOf ms) g =
     (if g \<in> generation ` set ms then Some (filter (\<lambda>m. generation m = g) ms) else None)"
  by (simp add: generationMapOf_def map_of_fold_addToGenerationMap orElse_def)

lemma map_snd_of_enumerate: "map (\<lambda>x. f (snd x)) (enumerate n xs) = map f xs"
  by (induction xs arbitrary: n) simp_all

lemma groupByGeneration_members:
  "map gmembers (groupByGeneration cfg ms) =
     map (\<lambda>g. filter (\<lambda>m. generation m = g) ms) (sorted_list_of_set (generation ` set ms))"
proof -
  have "map gmembers (groupByGeneration cfg ms) =
     map (\<lambda>g. orElse (map_of (generationMapOf ms) g) []) (sorted_list_of_set (generation ` set ms))"
    by (simp add: groupByGeneration_def Let_def sortedGens_eq bandAt_def split_def comp_def)
       (rule map_snd_of_enumerate)
  also have "\<dots> = map (\<lambda>g. filter (\<lambda>m. generation m = g) ms) (sorted_list_of_set (generation ` set ms))"
    by (rule map_cong) (simp_all add: map_of_generationMapOf orElse_def)
  finally show ?thesis .
qed

lemma people_members:
  "map pmember (people (generateLayout cfg ms)) = concat (map gmembers (groupByGeneration cfg ms))"
  by (simp add: generateLayout_def calculatePersonPositions_def Let_def map_concat comp_def
      placeGeneration_def placeMembers_members)

lemma people_members_set: "pmember ` set (people (generateLayout cfg ms)) = set ms"
proof -
  have "pmember ` set (people (generateLayout cfg ms)) = set (map pmember (people (generateLayout cfg ms)))"
    by simp
  also have "\<dots> = set ms"
    unfolding people_members groupByGeneration_members by auto
  finally show ?thesis .
qed

lemma all_members_placed:
  "dom (layoutMapOf (people (generateLayout cfg ms))) = mid ` set ms"
proof -
  have "dom (layoutMapOf (people (generateLayout cfg ms)))
      = mid ` pmember ` set (people (generateLayout cfg ms))"
    by (simp add: layoutMapOf_dom image_image)
  then show ?thesis by (simp only: people_members_set)
qed

lemma connections_count:
  assumes "\<forall>m \<in> set ms. set (foraldrar m) \<subseteq> mid ` set ms"
  shows "length (connections (generateLayout cfg ms)) = sum_list (map (\<lambda>m. length (foraldrar m)) ms)"
proof -
  let ?lm = "layoutMapOf (people (generateLayout cfg ms))"
  have each: "length (connectionsOf ?lm m) = length (foraldrar m)" if m: "m \<in> set ms" for m
  proof -
    have "mid m \<in> dom ?lm" using m by (simp add: all_members_placed)
    then obtain cl where cl: "?lm (mid m) = Some cl" by blast
    have "\<forall>pid \<in> set (foraldrar m). ?lm pid \<noteq> None"
      using assms m all_members_placed [of cfg ms] by (metis domIff subsetD)
    from connectionsOf_all_placed [OF cl this] show ?thesis by simp
  qed
  have "connections (generateLayout cfg ms) = concat (map (connectionsOf ?lm) ms)"
    by (simp add: generateLayout_def Let_def generateConnections_def)
  then have "length (connections (generateLayout cfg ms)) = sum_list (map (\<lambda>m. length (connectionsOf ?lm m)) ms)"
    by (simp add: length_concat comp_def)
  also have "\<dots> = sum_list (map (\<lambda>m. length (foraldrar m)) ms)"
    by (rule arg_cong [of _ _ sum_list], rule map_cong) (simp_all add: each)
  finally show ?thesis .
qed

lemma generateConnectionsSVG_shape:
  "generateConnectionsSVG fmt cfg cs =
     (if cs = [] then []
      else js ''  <!-- Family connections -->\<newline>'' @
           joinWith (js ''\<newline>'') (map (connectionElement fmt cfg) cs))"
  by (simp add: generateConnectionsSVG_def Let_def)

lemma sublist_generateConnectionsSVG:
  assumes "c \<in> set cs"
  shows "sublist (connectionElement fmt cfg c) (generateConnectionsSVG fmt cfg cs)"
proof -
  have ne: "cs \<noteq> []" using assms by auto
  have "sublist (connectionElement fmt cfg c)
          (joinWith (js ''\<newline>'') (map (connectionElement fmt cfg) cs))"
    using assms by (intro sublist_joinWith) simp
  then have "sublist (connectionElement fmt cfg c)
      (js ''  <!-- Family connections -->\<newline>'' @
         joinWith (js ''\<newline>'') (map (connectionElement fmt cfg) cs))"
    by (rule sublist_skip)
  then show ?thesis using ne by (simp add: generateConnectionsSVG_shape)
qed

lemma sublist_connections_generateSVG:
  "sublist (generateConnectionsSVG fmt cfg (connections layout)) (generateSVG fmt cfg project layout)"
  unfolding generateSVG_def Let_def by (rule sublist_append_rightI | rule sublist_skip)+

lemma connectionsOf_origin:
  assumes "c \<in> set (connectionsOf lm m)"
  shows "\<exists>pid \<in> set (foraldrar m). \<exists>pl cl. lm pid = Some pl \<and> lm (mid m) = Some cl
           \<and> c = parentConnection pl cl"
  using assms by (auto simp add: connectionsOf_def split: option.splits) (metis)

lemma generateConnections_origin:
  assumes "c \<in> set (generateConnections ls ms)"
  shows "\<exists>m \<in> set ms. \<exists>pid \<in> set (foraldrar m). \<exists>pl cl.
           layoutMapOf ls pid = Some pl \<and> layoutMapOf ls (mid m) = Some cl
           \<and> c = parentConnection pl cl"
proof -
  from assms obtain m where m: "m \<in> set ms" "c \<in> set (connectionsOf (layoutMapOf ls) m)"
    by (auto simp add: generateConnections_def)
  from connectionsOf_origin [OF m(2)] m(1) show ?thesis by blast
qed

text \<open>
  C7: for a placed person whose recorded parent ids are all placed, the connections
  emitted for that person are exactly one per recorded parent id, in order, each from
  the parent's anchor to the person's anchor; the connections of a layout are those of
  all members, and each of them joins the placement of a recorded parent to the
  placement of its child; when every recorded parent id is a member id, a layout has as
  many connections as there are recorded parent ids; the serializer writes one element
  per connection, in order, under one heading, and the element of every connection of a
  layout is part of the serialized document; the element of a parent-child connection is
  a path that goes down from the parent anchor, across at the vertical midpoint between
  the parent's row and the child's row, and down into the child anchor; and the test
  family (two partners at generation 0, one shared child at generation 1) gives 2 bands,
  2 connections and 1 marriage connection.
\<close>

theorem parent_connections:
  "(layoutMapOf ls (mid m) = Some cl \<and> (\<forall>pid \<in> set (foraldrar m). layoutMapOf ls pid \<noteq> None) \<longrightarrow>
      connectionsOf (layoutMapOf ls) m
        = map (\<lambda>pid. parentConnection (the (layoutMapOf ls pid)) cl) (foraldrar m))
   \<and> generateConnections ls ms = concat (map (connectionsOf (layoutMapOf ls)) ms)
   \<and> ((\<forall>m \<in> set ms. set (foraldrar m) \<subseteq> mid ` set ms) \<longrightarrow>
        length (connections (generateLayout cfg ms)) = sum_list (map (\<lambda>m. length (foraldrar m)) ms))
   \<and> midY (parentConnection pl cl) = (py pl + py cl) / 2
   \<and> connectionElement fmt cfg (parentConnection pl cl) =
        js ''    <!-- Parent-child connection -->\<newline>'' @
        js ''    <path d=\"M '' @ fmt (px pl) @ js '' '' @ fmt (py pl + 10) @
        js '' L '' @ fmt (px pl) @ js '' '' @ fmt ((py pl + py cl) / 2) @
        js '' L '' @ fmt (px cl) @ js '' '' @ fmt ((py pl + py cl) / 2) @
        js '' L '' @ fmt (px cl) @ js '' '' @ fmt (py cl - 10) @
        js ''\"\<newline>'' @
        js ''          stroke=\"'' @ lineColor cfg @ js ''\"\<newline>'' @
        js ''          stroke-width=\"'' @ fmt (lineWidth cfg) @ js ''\"\<newline>'' @
        js ''          fill=\"none\"/>''
   \<and> length (generations (generateLayout (newConfig noOverrides) [john, jane, child])) = 2
   \<and> length (connections (generateLayout (newConfig noOverrides) [john, jane, child])) = 2
   \<and> length (marriages (generateLayout (newConfig noOverrides) [john, jane, child])) = 1
   \<and> (\<forall>c \<in> set (generateConnections ls ms).
         \<exists>m \<in> set ms. \<exists>pid \<in> set (foraldrar m). \<exists>pl cl.
           layoutMapOf ls pid = Some pl \<and> layoutMapOf ls (mid m) = Some cl
           \<and> c = parentConnection pl cl)
   \<and> generateConnectionsSVG fmt cfg cs =
        (if cs = [] then []
         else js ''  <!-- Family connections -->\<newline>'' @
              joinWith (js ''\<newline>'') (map (connectionElement fmt cfg) cs))
   \<and> (\<forall>c \<in> set (connections layout).
         sublist (connectionElement fmt cfg c) (generateSVG fmt cfg project layout))"
proof -
  have mY: "midY (parentConnection pl cl) = (py pl + py cl) / 2"
    by (simp add: midY_def parentConnection_def)
  have el: "connectionElement fmt cfg (parentConnection pl cl) =
        js ''    <!-- Parent-child connection -->\<newline>'' @
        js ''    <path d=\"M '' @ fmt (px pl) @ js '' '' @ fmt (py pl + 10) @
        js '' L '' @ fmt (px pl) @ js '' '' @ fmt ((py pl + py cl) / 2) @
        js '' L '' @ fmt (px cl) @ js '' '' @ fmt ((py pl + py cl) / 2) @
        js '' L '' @ fmt (px cl) @ js '' '' @ fmt (py cl - 10) @
        js ''\"\<newline>'' @
        js ''          stroke=\"'' @ lineColor cfg @ js ''\"\<newline>'' @
        js ''          stroke-width=\"'' @ fmt (lineWidth cfg) @ js ''\"\<newline>'' @
        js ''          fill=\"none\"/>''"
    unfolding connectionElement_def mY by (simp add: parentConnection_def)
  have a: "layoutMapOf ls (mid m) = Some cl \<and> (\<forall>pid \<in> set (foraldrar m). layoutMapOf ls pid \<noteq> None) \<longrightarrow>
      connectionsOf (layoutMapOf ls) m
        = map (\<lambda>pid. parentConnection (the (layoutMapOf ls pid)) cl) (foraldrar m)"
    using connectionsOf_all_placed [of "layoutMapOf ls" m cl] by blast
  have b: "generateConnections ls ms = concat (map (connectionsOf (layoutMapOf ls)) ms)"
    by (simp add: generateConnections_def)
  have c: "(\<forall>m \<in> set ms. set (foraldrar m) \<subseteq> mid ` set ms) \<longrightarrow>
        length (connections (generateLayout cfg ms)) = sum_list (map (\<lambda>m. length (foraldrar m)) ms)"
    using connections_count [of ms cfg] by blast
  have o: "\<forall>c \<in> set (generateConnections ls ms).
         \<exists>m \<in> set ms. \<exists>pid \<in> set (foraldrar m). \<exists>pl cl.
           layoutMapOf ls pid = Some pl \<and> layoutMapOf ls (mid m) = Some cl
           \<and> c = parentConnection pl cl"
    using generateConnections_origin by blast
  note sh = generateConnectionsSVG_shape [of fmt cfg cs]
  have d: "\<forall>c \<in> set (connections layout).
         sublist (connectionElement fmt cfg c) (generateSVG fmt cfg project layout)"
  proof
    fix c assume "c \<in> set (connections layout)"
    then have "sublist (connectionElement fmt cfg c)
                 (generateConnectionsSVG fmt cfg (connections layout))"
      by (rule sublist_generateConnectionsSVG)
    then show "sublist (connectionElement fmt cfg c) (generateSVG fmt cfg project layout)"
      using sublist_connections_generateSVG by (rule sublist_chain)
  qed
  note n = simpleFamily_counts
  from a b c mY el n [THEN conjunct1] n [THEN conjunct2, THEN conjunct1]
    n [THEN conjunct2, THEN conjunct2] o sh d
  show ?thesis by (intro conjI)
qed

theorem parent_connections_witness:
  "layoutMapOf (people (generateLayout (newConfig noOverrides) [john, jane, child])) (mid child)
     = Some \<lparr> px = 250, py = 270, pmember = child, textWidth = 40 \<rparr>
   \<and> connectionsOf (layoutMapOf (people (generateLayout (newConfig noOverrides) [john, jane, child]))) child
     = map (\<lambda>pid. parentConnection
              (the (layoutMapOf (people (generateLayout (newConfig noOverrides) [john, jane, child])) pid))
              \<lparr> px = 250, py = 270, pmember = child, textWidth = 40 \<rparr>)
         (foraldrar child)
   \<and> length (connections (generateLayout (newConfig noOverrides) [john, jane, child]))
     = sum_list (map (\<lambda>m. length (foraldrar m)) [john, jane, child])
   \<and> hd (connections (generateLayout (newConfig noOverrides) [john, jane, child]))
       \<in> set (connections (generateLayout (newConfig noOverrides) [john, jane, child]))
   \<and> sublist
        (connectionElement decimalText (newConfig noOverrides)
           (hd (connections (generateLayout (newConfig noOverrides) [john, jane, child]))))
        (generateSVG decimalText (newConfig noOverrides) simpleFamily
           (generateLayout (newConfig noOverrides) [john, jane, child]))
   \<and> hd (generateConnections (people (generateLayout (newConfig noOverrides) [john, jane, child]))
           [john, jane, child])
       \<in> set (generateConnections (people (generateLayout (newConfig noOverrides) [john, jane, child]))
           [john, jane, child])"
proof -
  let ?L = "generateLayout (newConfig noOverrides) [john, jane, child]"
  have h1: "layoutMapOf (people ?L) (mid child)
     = Some \<lparr> px = 250, py = 270, pmember = child, textWidth = 40 \<rparr>"
    by (simp add: ev)
  have h2: "\<forall>pid \<in> set (foraldrar child). layoutMapOf (people ?L) pid \<noteq> None"
    by (simp add: ev)
  have h3: "\<forall>m \<in> set [john, jane, child]. set (foraldrar m) \<subseteq> mid ` set [john, jane, child]"
    by (simp add: john_def jane_def child_def)
  have "connections ?L \<noteq> []" using simpleFamily_counts by auto
  then have h4: "hd (connections ?L) \<in> set (connections ?L)" by simp
  have "generateConnections (people ?L) [john, jane, child] = connections ?L"
    by (simp add: generateLayout_def Let_def)
  with h4 have h5: "hd (generateConnections (people ?L) [john, jane, child])
       \<in> set (generateConnections (people ?L) [john, jane, child])" by simp
  note t = parent_connections [where ls = "people ?L" and m = child
      and cl = "\<lparr> px = 250, py = 270, pmember = child, textWidth = 40 \<rparr>"
      and ms = "[john, jane, child]" and cfg = "newConfig noOverrides"
      and fmt = decimalText and layout = ?L and project = simpleFamily]
  from t h1 h2 have a: "connectionsOf (layoutMapOf (people ?L)) child
     = map (\<lambda>pid. parentConnection (the (layoutMapOf (people ?L) pid))
              \<lparr> px = 250, py = 270, pmember = child, textWidth = 40 \<rparr>) (foraldrar child)"
    by blast
  from t h3 have b: "length (connections ?L) = sum_list (map (\<lambda>m. length (foraldrar m)) [john, jane, child])"
    by blast
  from t h4 have c: "sublist (connectionElement decimalText (newConfig noOverrides) (hd (connections ?L)))
        (generateSVG decimalText (newConfig noOverrides) simpleFamily ?L)"
    by blast
  from h1 a b h4 c h5 show ?thesis by (intro conjI)
qed

subsection \<open>Horizontal placement (C4)\<close>

text \<open>
  C4 as stated fails. On the test family the code puts the anchors of the first band
  at 214 and 286 and the child's at 250, where the reference algorithm, starting at the
  left margin 50, gives 66, 138 and 70: the code starts each band at the left margin
  plus half of what the band's total width leaves of 400. On a band wider than 400 (a
  couple followed by a third person) the start agrees, and the anchors differ at the
  third person: the code advances by the marriage gap after the second partner, whose
  recorded partner is in the band but is not the next member.
\<close>

theorem cursor_reference_counterexample:
  "map px (people (generateLayout (newConfig noOverrides) [john, jane, child])) = [214, 286, 250]
   \<and> specBandAnchors (newConfig noOverrides) [john, jane] @ specBandAnchors (newConfig noOverrides) [child]
       = [66, 138, 70]
   \<and> map px (people (generateLayout (newConfig noOverrides) [john, jane, child]))
       \<noteq> specBandAnchors (newConfig noOverrides) [john, jane] @ specBandAnchors (newConfig noOverrides) [child]
   \<and> map px (people (generateLayout (newConfig noOverrides) [anna, bertil, cecilia])) = [106, 254, 394]
   \<and> specBandAnchors (newConfig noOverrides) [anna, bertil, cecilia] = [106, 254, 474]
   \<and> map px (people (generateLayout (newConfig noOverrides) [anna, bertil, cecilia]))
       \<noteq> specBandAnchors (newConfig noOverrides) [anna, bertil, cecilia]"
  by (simp add: ev anna_def bertil_def cecilia_def specBandAnchors_def)

lemma placeMembers_length: "length (fst (placeMembers cfg gm y c ms)) = length ms"
  by (induction ms arbitrary: c) (simp_all add: Let_def)

lemma placeMembers_first:
  "ms \<noteq> [] \<Longrightarrow> leftEdge (fst (placeMembers cfg gm y c ms) ! 0) = c"
  by (cases ms) (simp_all add: Let_def leftEdge_def)

lemma placeMembers_nth:
  "i < length ms \<Longrightarrow>
     pmember (fst (placeMembers cfg gm y c ms) ! i) = ms ! i
     \<and> textWidth (fst (placeMembers cfg gm y c ms) ! i) = estimateTextWidth cfg (namn (ms ! i))
     \<and> py (fst (placeMembers cfg gm y c ms) ! i) = y"
proof (induction ms arbitrary: c i)
  case Nil
  then show ?case by simp
next
  case (Cons m ms)
  show ?case
  proof (cases i)
    case 0
    then show ?thesis by (simp add: Let_def)
  next
    case (Suc j)
    with Cons.prems have "j < length ms" by simp
    from Cons.IH [OF this] show ?thesis using Suc by (simp add: Let_def)
  qed
qed

lemma placeMembers_step:
  "Suc i < length ms \<Longrightarrow>
     leftEdge (fst (placeMembers cfg gm y c ms) ! Suc i)
       = leftEdge (fst (placeMembers cfg gm y c ms) ! i)
         + textWidth (fst (placeMembers cfg gm y c ms) ! i)
         + (if hasSpouseIn gm (ms ! i) then marriageSpacing cfg else personSpacing cfg)"
proof (induction ms arbitrary: c i)
  case Nil
  then show ?case by simp
next
  case (Cons m ms)
  then have ne: "ms \<noteq> []" by auto
  show ?case
  proof (cases i)
    case 0
    show ?thesis
      using placeMembers_first [OF ne, of cfg gm y]
      by (simp add: 0 Let_def leftEdge_def)
  next
    case (Suc j)
    with Cons.prems have "Suc j < length ms" by simp
    from Cons.IH [OF this] show ?thesis using Suc by (simp add: Let_def)
  qed
qed

lemma hasSpouseIn_iff:
  "hasSpouseIn gm m \<longleftrightarrow> truthy (partner m) \<and> (\<exists>s \<in> set gm. partner m = Some (mid s))"
  unfolding hasSpouseIn_def find_None_iff by metis

text \<open>
  C4, as the code has it by design: the placements of a layout are those of its bands,
  in band order, one per member; within a band the cursor (the left edge of a label)
  starts at the left margin plus max(0, (400 - total width of the band) / 2); a member's
  anchor x is the cursor plus half its label width; the next cursor is the cursor plus
  the label width plus the marriage gap when the next member is this member's recorded
  partner, and plus the person gap when this member has no partner or its partner is
  not a member of the band.
\<close>

theorem band_cursor_placement:
  "people (generateLayout cfg ms) = concat (map (\<lambda>g. fst (placeGeneration cfg g)) (groupByGeneration cfg ms))
   \<and> length (fst (placeGeneration cfg g)) = length (gmembers g)
   \<and> (gmembers g \<noteq> [] \<longrightarrow>
        leftEdge (fst (placeGeneration cfg g) ! 0)
          = marginLeft cfg + max 0 ((400 - calculateTotalWidthForGeneration cfg (gmembers g)) / 2))
   \<and> (\<forall>i < length (gmembers g).
        pmember (fst (placeGeneration cfg g) ! i) = gmembers g ! i
        \<and> textWidth (fst (placeGeneration cfg g) ! i) = estimateTextWidth cfg (namn (gmembers g ! i))
        \<and> px (fst (placeGeneration cfg g) ! i)
            = leftEdge (fst (placeGeneration cfg g) ! i) + textWidth (fst (placeGeneration cfg g) ! i) / 2)
   \<and> (\<forall>i. Suc i < length (gmembers g) \<longrightarrow>
        (truthy (partner (gmembers g ! i)) \<and> partner (gmembers g ! i) = Some (mid (gmembers g ! Suc i)) \<longrightarrow>
           leftEdge (fst (placeGeneration cfg g) ! Suc i)
             = leftEdge (fst (placeGeneration cfg g) ! i) + textWidth (fst (placeGeneration cfg g) ! i)
               + marriageSpacing cfg)
        \<and> (\<not> truthy (partner (gmembers g ! i)) \<or> partner (gmembers g ! i) \<notin> (\<lambda>s. Some (mid s)) ` set (gmembers g) \<longrightarrow>
           leftEdge (fst (placeGeneration cfg g) ! Suc i)
             = leftEdge (fst (placeGeneration cfg g) ! i) + textWidth (fst (placeGeneration cfg g) ! i)
               + personSpacing cfg))"
proof -
  have a: "people (generateLayout cfg ms) = concat (map (\<lambda>g. fst (placeGeneration cfg g)) (groupByGeneration cfg ms))"
    by (simp add: generateLayout_def calculatePersonPositions_def Let_def comp_def)
  have b: "length (fst (placeGeneration cfg g)) = length (gmembers g)"
    by (simp add: placeGeneration_def Let_def placeMembers_length)
  have c: "gmembers g \<noteq> [] \<longrightarrow>
        leftEdge (fst (placeGeneration cfg g) ! 0)
          = marginLeft cfg + max 0 ((400 - calculateTotalWidthForGeneration cfg (gmembers g)) / 2)"
    by (simp add: placeGeneration_def Let_def placeMembers_first startX_def)
  have d: "\<forall>i < length (gmembers g).
        pmember (fst (placeGeneration cfg g) ! i) = gmembers g ! i
        \<and> textWidth (fst (placeGeneration cfg g) ! i) = estimateTextWidth cfg (namn (gmembers g ! i))
        \<and> px (fst (placeGeneration cfg g) ! i)
            = leftEdge (fst (placeGeneration cfg g) ! i) + textWidth (fst (placeGeneration cfg g) ! i) / 2"
    by (simp add: placeGeneration_def Let_def placeMembers_nth leftEdge_def)
  have e: "\<forall>i. Suc i < length (gmembers g) \<longrightarrow>
        (truthy (partner (gmembers g ! i)) \<and> partner (gmembers g ! i) = Some (mid (gmembers g ! Suc i)) \<longrightarrow>
           leftEdge (fst (placeGeneration cfg g) ! Suc i)
             = leftEdge (fst (placeGeneration cfg g) ! i) + textWidth (fst (placeGeneration cfg g) ! i)
               + marriageSpacing cfg)
        \<and> (\<not> truthy (partner (gmembers g ! i)) \<or> partner (gmembers g ! i) \<notin> (\<lambda>s. Some (mid s)) ` set (gmembers g) \<longrightarrow>
           leftEdge (fst (placeGeneration cfg g) ! Suc i)
             = leftEdge (fst (placeGeneration cfg g) ! i) + textWidth (fst (placeGeneration cfg g) ! i)
               + personSpacing cfg)"
  proof (intro allI impI conjI)
    fix i
    assume i: "Suc i < length (gmembers g)"
    assume p: "truthy (partner (gmembers g ! i)) \<and> partner (gmembers g ! i) = Some (mid (gmembers g ! Suc i))"
    have "gmembers g ! Suc i \<in> set (gmembers g)" using i by simp
    with p have "hasSpouseIn (gmembers g) (gmembers g ! i)"
      unfolding hasSpouseIn_iff by blast
    then show "leftEdge (fst (placeGeneration cfg g) ! Suc i)
             = leftEdge (fst (placeGeneration cfg g) ! i) + textWidth (fst (placeGeneration cfg g) ! i)
               + marriageSpacing cfg"
      using placeMembers_step [OF i, of cfg "gmembers g" "yPosition g" "startX cfg (gmembers g)"]
      by (simp add: placeGeneration_def Let_def)
  next
    fix i
    assume i: "Suc i < length (gmembers g)"
    assume p: "\<not> truthy (partner (gmembers g ! i)) \<or> partner (gmembers g ! i) \<notin> (\<lambda>s. Some (mid s)) ` set (gmembers g)"
    then have "\<not> hasSpouseIn (gmembers g) (gmembers g ! i)"
      unfolding hasSpouseIn_iff by blast
    then show "leftEdge (fst (placeGeneration cfg g) ! Suc i)
             = leftEdge (fst (placeGeneration cfg g) ! i) + textWidth (fst (placeGeneration cfg g) ! i)
               + personSpacing cfg"
      using placeMembers_step [OF i, of cfg "gmembers g" "yPosition g" "startX cfg (gmembers g)"]
      by (simp add: placeGeneration_def Let_def)
  qed
  from a b c d e show ?thesis by (intro conjI)
qed


theorem band_cursor_placement_witness:
  "gmembers \<lparr> ggeneration = 0, gmembers = [john, jane, child], yPosition = 190,
              leftmostX = 0, rightmostX = 0 \<rparr> \<noteq> []
   \<and> (0::nat) < length (gmembers \<lparr> ggeneration = 0, gmembers = [john, jane, child],
              yPosition = 190, leftmostX = 0, rightmostX = 0 \<rparr>)
   \<and> Suc 0 < length (gmembers \<lparr> ggeneration = 0, gmembers = [john, jane, child],
              yPosition = 190, leftmostX = 0, rightmostX = 0 \<rparr>)
   \<and> Suc 2 < length (gmembers \<lparr> ggeneration = 0, gmembers = [john, jane, child, cecilia],
              yPosition = 190, leftmostX = 0, rightmostX = 0 \<rparr>)
   \<and> leftEdge (fst (placeGeneration (newConfig noOverrides)
         \<lparr> ggeneration = 0, gmembers = [john, jane, child], yPosition = 190,
           leftmostX = 0, rightmostX = 0 \<rparr>) ! 0)
       = marginLeft (newConfig noOverrides)
         + max 0 ((400 - calculateTotalWidthForGeneration (newConfig noOverrides) [john, jane, child]) / 2)
   \<and> px (fst (placeGeneration (newConfig noOverrides)
         \<lparr> ggeneration = 0, gmembers = [john, jane, child], yPosition = 190,
           leftmostX = 0, rightmostX = 0 \<rparr>) ! 0)
       = leftEdge (fst (placeGeneration (newConfig noOverrides)
         \<lparr> ggeneration = 0, gmembers = [john, jane, child], yPosition = 190,
           leftmostX = 0, rightmostX = 0 \<rparr>) ! 0)
         + textWidth (fst (placeGeneration (newConfig noOverrides)
         \<lparr> ggeneration = 0, gmembers = [john, jane, child], yPosition = 190,
           leftmostX = 0, rightmostX = 0 \<rparr>) ! 0) / 2
   \<and> leftEdge (fst (placeGeneration (newConfig noOverrides)
         \<lparr> ggeneration = 0, gmembers = [john, jane, child], yPosition = 190,
           leftmostX = 0, rightmostX = 0 \<rparr>) ! Suc 0)
       = leftEdge (fst (placeGeneration (newConfig noOverrides)
         \<lparr> ggeneration = 0, gmembers = [john, jane, child], yPosition = 190,
           leftmostX = 0, rightmostX = 0 \<rparr>) ! 0)
         + textWidth (fst (placeGeneration (newConfig noOverrides)
         \<lparr> ggeneration = 0, gmembers = [john, jane, child], yPosition = 190,
           leftmostX = 0, rightmostX = 0 \<rparr>) ! 0)
         + marriageSpacing (newConfig noOverrides)
   \<and> leftEdge (fst (placeGeneration (newConfig noOverrides)
         \<lparr> ggeneration = 0, gmembers = [john, jane, child, cecilia], yPosition = 190,
           leftmostX = 0, rightmostX = 0 \<rparr>) ! Suc 2)
       = leftEdge (fst (placeGeneration (newConfig noOverrides)
         \<lparr> ggeneration = 0, gmembers = [john, jane, child, cecilia], yPosition = 190,
           leftmostX = 0, rightmostX = 0 \<rparr>) ! 2)
         + textWidth (fst (placeGeneration (newConfig noOverrides)
         \<lparr> ggeneration = 0, gmembers = [john, jane, child, cecilia], yPosition = 190,
           leftmostX = 0, rightmostX = 0 \<rparr>) ! 2)
         + personSpacing (newConfig noOverrides)"
proof -
  let ?c = "newConfig noOverrides"
  let ?g = "\<lparr> ggeneration = 0, gmembers = [john, jane, child], yPosition = 190,
              leftmostX = 0, rightmostX = 0 \<rparr>"
  let ?h = "\<lparr> ggeneration = 0, gmembers = [john, jane, child, cecilia], yPosition = 190,
              leftmostX = 0, rightmostX = 0 \<rparr>"
  have ne: "gmembers ?g \<noteq> []" by simp
  have i0: "(0::nat) < length (gmembers ?g)" by simp
  have i1: "Suc 0 < length (gmembers ?g)" by simp
  have i3: "Suc 2 < length (gmembers ?h)" by simp
  have mg: "gmembers ?g = [john, jane, child]" by simp
  have couple: "truthy (partner (gmembers ?g ! 0))
                \<and> partner (gmembers ?g ! 0) = Some (mid (gmembers ?g ! Suc 0))"
    by (simp add: truthy_def john_def jane_def js_def)
  have single: "\<not> truthy (partner (gmembers ?h ! 2))"
    by (simp add: truthy_def child_def)
  note g = band_cursor_placement [of ?c "[john, jane, child]" ?g]
  note h = band_cursor_placement [of ?c "[john, jane, child]" ?h]
  from g ne have a: "leftEdge (fst (placeGeneration ?c ?g) ! 0)
       = marginLeft ?c + max 0 ((400 - calculateTotalWidthForGeneration ?c (gmembers ?g)) / 2)"
    by blast
  from g i0 have b: "px (fst (placeGeneration ?c ?g) ! 0)
       = leftEdge (fst (placeGeneration ?c ?g) ! 0) + textWidth (fst (placeGeneration ?c ?g) ! 0) / 2"
    by blast
  from g i1 couple have c: "leftEdge (fst (placeGeneration ?c ?g) ! Suc 0)
       = leftEdge (fst (placeGeneration ?c ?g) ! 0) + textWidth (fst (placeGeneration ?c ?g) ! 0)
         + marriageSpacing ?c"
    by blast
  from h i3 single have d: "leftEdge (fst (placeGeneration ?c ?h) ! Suc 2)
       = leftEdge (fst (placeGeneration ?c ?h) ! 2) + textWidth (fst (placeGeneration ?c ?h) ! 2)
         + personSpacing ?c"
    by blast
  from ne i0 i1 i3 a [unfolded mg] b c d show ?thesis by (intro conjI)
qed

subsection \<open>Marriage connections (C8)\<close>

lemma js_dash: "js ''-'' = [0x2D]"
  by (simp add: js_def)

lemma pairKey_alt:
  "pairKey a b = (if a \<le> b then a @ [0x2D] @ b else b @ [0x2D] @ a)"
  by (simp add: pairKey_def js_dash)

lemma pairKey_sym: "pairKey a b = pairKey b a"
  by (auto simp add: pairKey_alt)

lemma pairKey_inj:
  assumes "0x2D \<notin> set a" "0x2D \<notin> set b" "0x2D \<notin> set c" "0x2D \<notin> set d"
    and "pairKey a b = pairKey c d"
  shows "{a, b} = {c, d}"
  using assms by (auto simp add: pairKey_alt append_Cons_eq_iff split: if_splits)

lemma keyOf_couple: "couple m = couple m' \<Longrightarrow> keyOf m = keyOf m'"
  unfolding couple_def keyOf_def
  by (metis doubleton_eq_iff pairKey_sym)

lemma marriageStep_cases:
  "marriageStep lm m (pr, acc) =
     (if \<not> truthy (partner m) \<or> keyOf m \<in> set pr then (pr, acc)
      else (keyOf m # pr,
            acc @ (case (lm (mid m), lm (the (partner m))) of
                     (Some l1, Some l2) \<Rightarrow> [marriageOf l1 l2] | _ \<Rightarrow> [])))"
  by (auto simp add: marriageStep_def keyOf_def Let_def split: option.splits)

lemma pairCount_append: "pairCount P (xs @ ys) = pairCount P xs + pairCount P ys"
  by (simp add: pairCount_def)

lemma dedupInv_skip:
  assumes "dedupInv seen st" "\<not> truthy (partner m)"
  shows "dedupInv (seen @ [m]) (marriageStep lm m st)"
proof -
  obtain pr acc where st: "st = (pr, acc)" by (cases st)
  have "marriageStep lm m st = st" using assms(2) by (simp add: st marriageStep_cases)
  moreover have "{x \<in> set (seen @ [m]). truthy (partner x)} = {x \<in> set seen. truthy (partner x)}"
    using assms(2) by auto
  moreover have "(\<exists>x \<in> set (seen @ [m]). truthy (partner x) \<and> couple x = P)
       \<longleftrightarrow> (\<exists>x \<in> set seen. truthy (partner x) \<and> couple x = P)" for P
    using assms(2) by auto
  ultimately show ?thesis using assms(1) unfolding dedupInv_def by simp
qed

lemma dedupInv_seen:
  assumes inv: "dedupInv seen st" and t: "truthy (partner m)"
    and k: "keyOf m \<in> set (fst st)"
    and inj: "\<forall>x \<in> set seen. truthy (partner x) \<and> keyOf x = keyOf m \<longrightarrow> couple x = couple m"
  shows "dedupInv (seen @ [m]) (marriageStep lm m st)"
proof -
  obtain pr acc where st: "st = (pr, acc)" by (cases st)
  have same: "marriageStep lm m st = st" using k by (simp add: st marriageStep_cases)
  from k inv obtain x where x: "x \<in> set seen" "truthy (partner x)" "keyOf x = keyOf m"
    unfolding dedupInv_def by auto
  with inj have cx: "couple x = couple m" by blast
  have keys: "keyOf ` {y \<in> set (seen @ [m]). truthy (partner y)} = keyOf ` {y \<in> set seen. truthy (partner y)}"
  proof -
    have "{y \<in> set (seen @ [m]). truthy (partner y)} = insert m {y \<in> set seen. truthy (partner y)}"
      using t by auto
    moreover have "keyOf m \<in> keyOf ` {y \<in> set seen. truthy (partner y)}"
    proof -
      have "keyOf x \<in> keyOf ` {y \<in> set seen. truthy (partner y)}" using x(1,2) by blast
      then show ?thesis by (simp only: x(3))
    qed
    ultimately show ?thesis by auto
  qed
  have ex: "(\<exists>y \<in> set (seen @ [m]). truthy (partner y) \<and> couple y = P)
       \<longleftrightarrow> (\<exists>y \<in> set seen. truthy (partner y) \<and> couple y = P)" for P
  proof
    assume "\<exists>y \<in> set (seen @ [m]). truthy (partner y) \<and> couple y = P"
    then obtain y where y: "y \<in> set seen \<or> y = m" "truthy (partner y)" "couple y = P" by auto
    show "\<exists>y \<in> set seen. truthy (partner y) \<and> couple y = P"
    proof (cases "y = m")
      case True
      with y cx x show ?thesis by blast
    next
      case False
      with y show ?thesis by blast
    qed
  next
    assume "\<exists>y \<in> set seen. truthy (partner y) \<and> couple y = P"
    then show "\<exists>y \<in> set (seen @ [m]). truthy (partner y) \<and> couple y = P" by auto
  qed
  show ?thesis using inv unfolding dedupInv_def same keys ex by blast
qed

lemma dedupInv_new:
  assumes inv: "dedupInv seen st" and t: "truthy (partner m)"
    and k: "keyOf m \<notin> set (fst st)"
    and cons: "\<And>k l. lm k = Some l \<Longrightarrow> mid (pmember l) = k"
    and placed: "lm (mid m) \<noteq> None" "lm (the (partner m)) \<noteq> None"
  shows "dedupInv (seen @ [m]) (marriageStep lm m st)"
proof -
  obtain pr acc where st: "st = (pr, acc)" by (cases st)
  from placed obtain l1 l2 where l: "lm (mid m) = Some l1" "lm (the (partner m)) = Some l2"
    by blast
  have step: "marriageStep lm m st = (keyOf m # pr, acc @ [marriageOf l1 l2])"
    using t k l by (simp add: st marriageStep_cases)
  have po: "pairOf (marriageOf l1 l2) = couple m"
    using cons [OF l(1)] cons [OF l(2)] by (simp add: pairOf_def marriageOf_def couple_def)
  have prs: "set pr = keyOf ` {y \<in> set seen. truthy (partner y)}"
    using inv unfolding dedupInv_def st by simp
  have cnt: "pairCount P acc = (if \<exists>y \<in> set seen. truthy (partner y) \<and> couple y = P then 1 else 0)" for P
    using inv unfolding dedupInv_def st by simp
  have none: "\<not> (\<exists>y \<in> set seen. truthy (partner y) \<and> couple y = couple m)"
  proof
    assume "\<exists>y \<in> set seen. truthy (partner y) \<and> couple y = couple m"
    then obtain y where y: "y \<in> set seen" "truthy (partner y)" "couple y = couple m" by blast
    from y(3) have "keyOf y = keyOf m" by (rule keyOf_couple)
    moreover have "keyOf y \<in> keyOf ` {y \<in> set seen. truthy (partner y)}" using y(1,2) by blast
    ultimately have "keyOf m \<in> set pr" by (simp only: prs)
    with k show False by (simp add: st)
  qed
  have keys: "set (keyOf m # pr) = keyOf ` {y \<in> set (seen @ [m]). truthy (partner y)}"
  proof -
    have "{y \<in> set (seen @ [m]). truthy (partner y)} = insert m {y \<in> set seen. truthy (partner y)}"
      using t by auto
    then show ?thesis by (simp add: prs)
  qed
  have cnt': "pairCount P (acc @ [marriageOf l1 l2])
      = (if \<exists>y \<in> set (seen @ [m]). truthy (partner y) \<and> couple y = P then 1 else 0)" for P
  proof (cases "P = couple m")
    case True
    have "pairCount P acc = 0" using cnt [of P] none True by simp
    moreover have "pairCount P [marriageOf l1 l2] = 1" using po True by (simp add: pairCount_def)
    moreover have "\<exists>y \<in> set (seen @ [m]). truthy (partner y) \<and> couple y = P" using t True by simp
    ultimately show ?thesis by (simp add: pairCount_append)
  next
    case False
    have "pairCount P [marriageOf l1 l2] = 0" using po False by (simp add: pairCount_def)
    moreover have "(\<exists>y \<in> set (seen @ [m]). truthy (partner y) \<and> couple y = P)
        \<longleftrightarrow> (\<exists>y \<in> set seen. truthy (partner y) \<and> couple y = P)"
      using False by auto
    ultimately show ?thesis using cnt [of P] by (simp add: pairCount_append)
  qed
  show ?thesis unfolding dedupInv_def step using keys cnt' by simp
qed

lemma dedupInv_fold:
  assumes cons: "\<And>k l. lm k = Some l \<Longrightarrow> mid (pmember l) = k"
    and placed: "\<And>x. x \<in> S \<Longrightarrow> truthy (partner x) \<Longrightarrow>
                   lm (mid x) \<noteq> None \<and> lm (the (partner x)) \<noteq> None"
    and inj: "\<And>x y. x \<in> S \<Longrightarrow> y \<in> S \<Longrightarrow> truthy (partner x) \<Longrightarrow> truthy (partner y) \<Longrightarrow>
                   keyOf x = keyOf y \<Longrightarrow> couple x = couple y"
  shows "dedupInv seen st \<Longrightarrow> set seen \<subseteq> S \<Longrightarrow> set ms \<subseteq> S \<Longrightarrow>
    dedupInv (seen @ ms) (fold (marriageStep lm) ms st)"
proof (induction ms arbitrary: seen st)
  case Nil
  then show ?case by simp
next
  case (Cons m ms)
  have mS: "m \<in> S" using Cons.prems(3) by simp
  have next_inv: "dedupInv (seen @ [m]) (marriageStep lm m st)"
  proof (cases "truthy (partner m)")
    case False
    with Cons.prems(1) show ?thesis by (rule dedupInv_skip)
  next
    case t: True
    show ?thesis
    proof (cases "keyOf m \<in> set (fst st)")
      case True
      have "\<forall>x \<in> set seen. truthy (partner x) \<and> keyOf x = keyOf m \<longrightarrow> couple x = couple m"
      proof (intro ballI impI)
        fix x assume x: "x \<in> set seen" "truthy (partner x) \<and> keyOf x = keyOf m"
        from x(1) Cons.prems(2) have "x \<in> S" by blast
        from inj [OF this mS _ t] x(2) show "couple x = couple m" by blast
      qed
      with Cons.prems(1) t True show ?thesis by (rule dedupInv_seen)
    next
      case False
      from placed [OF mS t] have pl: "lm (mid m) \<noteq> None" "lm (the (partner m)) \<noteq> None"
        by blast+
      show ?thesis
        by (rule dedupInv_new [OF Cons.prems(1) t False cons pl])
    qed
  qed
  have s1: "set (seen @ [m]) \<subseteq> S" using Cons.prems(2) mS by simp
  have s2: "set ms \<subseteq> S" using Cons.prems(3) by simp
  from Cons.IH [OF next_inv s1 s2] show ?case by simp
qed

lemma layoutMapOf_fold_consistent:
  "(\<And>k l. acc k = Some l \<Longrightarrow> mid (pmember l) = k) \<Longrightarrow>
   fold (\<lambda>layout lm. lm(mid (pmember layout) \<mapsto> layout)) ls acc k = Some l \<Longrightarrow>
   mid (pmember l) = k"
proof (induction ls arbitrary: acc)
  case Nil
  then show ?case by simp
next
  case (Cons a ls)
  have "\<And>k l. (acc(mid (pmember a) \<mapsto> a)) k = Some l \<Longrightarrow> mid (pmember l) = k"
    using Cons.prems(1) by (auto split: if_splits)
  from Cons.IH [OF this] Cons.prems(2) show ?case by simp
qed

lemma layoutMapOf_consistent: "layoutMapOf ls k = Some l \<Longrightarrow> mid (pmember l) = k"
  unfolding layoutMapOf_def by (rule layoutMapOf_fold_consistent [of Map.empty]) simp_all

lemma marriageStep_fromMember:
  assumes "\<forall>c \<in> set (snd st). fromMember lm S c" "m \<in> S"
  shows "\<forall>c \<in> set (snd (marriageStep lm m st)). fromMember lm S c"
proof -
  obtain pr acc where st: "st = (pr, acc)" by (cases st)
  show ?thesis
  proof (cases "\<not> truthy (partner m) \<or> keyOf m \<in> set pr")
    case True
    then show ?thesis using assms(1) by (simp add: st marriageStep_cases)
  next
    case False
    show ?thesis
    proof (cases "lm (mid m)")
      case None
      then show ?thesis using False assms(1) by (simp add: st marriageStep_cases)
    next
      case l1: (Some l1)
      show ?thesis
      proof (cases "lm (the (partner m))")
        case None
        then show ?thesis using False assms(1) l1 by (simp add: st marriageStep_cases)
      next
        case l2: (Some l2)
        have "fromMember lm S (marriageOf l1 l2)"
          unfolding fromMember_def using assms(2) False l1 l2
          by (intro bexI [of _ m]) (simp_all add: marriageOf_def)
        then show ?thesis using False assms(1) l1 l2 by (simp add: st marriageStep_cases)
      qed
    qed
  qed
qed

lemma fold_marriageStep_fromMember:
  "\<forall>c \<in> set (snd st). fromMember lm S c \<Longrightarrow> set ms \<subseteq> S \<Longrightarrow>
   \<forall>c \<in> set (snd (fold (marriageStep lm) ms st)). fromMember lm S c"
proof (induction ms arbitrary: st)
  case Nil
  then show ?case by simp
next
  case (Cons m ms)
  have "\<forall>c \<in> set (snd (marriageStep lm m st)). fromMember lm S c"
    using Cons.prems by (intro marriageStep_fromMember) simp_all
  from Cons.IH [OF this] Cons.prems(2) show ?case by simp
qed

lemma generateMarriages_count:
  assumes placed: "\<forall>m \<in> set ms. truthy (partner m) \<longrightarrow>
              layoutMapOf ls (mid m) \<noteq> None \<and> layoutMapOf ls (the (partner m)) \<noteq> None"
    and nodash: "\<forall>m \<in> set ms. 0x2D \<notin> set (mid m) \<and> (truthy (partner m) \<longrightarrow> 0x2D \<notin> set (the (partner m)))"
  shows "pairCount P (generateMarriages ls ms)
           = (if \<exists>m \<in> set ms. truthy (partner m) \<and> couple m = P then 1 else 0)"
proof -
  have init: "dedupInv [] ([], [])" by (simp add: dedupInv_def pairCount_def)
  have inj: "couple x = couple y"
    if "x \<in> set ms" "y \<in> set ms" "truthy (partner x)" "truthy (partner y)" "keyOf x = keyOf y" for x y
    using that nodash unfolding couple_def keyOf_def by (intro pairKey_inj) auto
  have pl: "layoutMapOf ls (mid x) \<noteq> None \<and> layoutMapOf ls (the (partner x)) \<noteq> None"
    if "x \<in> set ms" "truthy (partner x)" for x
    using that placed by blast
  have "dedupInv ([] @ ms) (fold (marriageStep (layoutMapOf ls)) ms ([], []))"
    by (rule dedupInv_fold [where S = "set ms", OF layoutMapOf_consistent pl inj init]) simp_all
  then show ?thesis by (simp add: dedupInv_def generateMarriages_def)
qed

text \<open>
  C8 at an input where the code departs from it: with the two couples a-b and c, a and
  b-c, the partner relation is symmetric and all four persons are placed, and the layout
  has one marriage connection only, for the first couple; the second couple has none,
  where C8 says one for each pair. Both couples have the pair key a-b-c, and the second
  is taken for processed.
\<close>

theorem generateMarriages_drops_colliding_pair:
  "partner dashAB = Some (mid plainC) \<and> partner plainC = Some (mid dashAB)
   \<and> partner plainA = Some (mid dashBC) \<and> partner dashBC = Some (mid plainA)
   \<and> map (\<lambda>l. mid (pmember l))
        (people (generateLayout (newConfig noOverrides) [dashAB, plainC, plainA, dashBC]))
      = [js ''a-b'', js ''c'', js ''a'', js ''b-c'']
   \<and> map (\<lambda>c. (mid (pmember (person1 c)), mid (pmember (person2 c))))
        (marriages (generateLayout (newConfig noOverrides) [dashAB, plainC, plainA, dashBC]))
      = [(js ''a-b'', js ''c'')]
   \<and> length (filter (\<lambda>c. {mid (pmember (person1 c)), mid (pmember (person2 c))} = {js ''a'', js ''b-c''})
        (marriages (generateLayout (newConfig noOverrides) [dashAB, plainC, plainA, dashBC]))) = 0"
  by (simp add: ev dashAB_def plainC_def plainA_def dashBC_def doubleton_eq_iff)

text \<open>
  Where no member id contains the separator of the pair key, the key is the same for two
  partnered members only when their id pairs are the same, and the loop emits exactly
  one marriage connection for the id pair of every partnered member, with the union
  marker at the midpoint of the two anchors.
\<close>

lemma one_marriage_per_pair:
  assumes sym: "\<forall>m \<in> set ms. truthy (partner m) \<longrightarrow>
              (\<exists>m' \<in> set ms. mid m' = the (partner m) \<and> partner m' = Some (mid m))"
    and placed: "\<forall>m \<in> set ms. truthy (partner m) \<longrightarrow>
              layoutMapOf ls (mid m) \<noteq> None \<and> layoutMapOf ls (the (partner m)) \<noteq> None"
    and nodash: "\<forall>m \<in> set ms. 0x2D \<notin> set (mid m)"
  shows "(\<forall>m \<in> set ms. truthy (partner m) \<longrightarrow>
            length (filter (\<lambda>c. {mid (pmember (person1 c)), mid (pmember (person2 c))}
                                 = {mid m, the (partner m)})
                     (generateMarriages ls ms)) = 1)
         \<and> (\<forall>c \<in> set (generateMarriages ls ms).
              symbolX c = (px (person1 c) + px (person2 c)) / 2
              \<and> symbolY c = (py (person1 c) + py (person2 c)) / 2
              \<and> (\<exists>m \<in> set ms. truthy (partner m)
                    \<and> layoutMapOf ls (mid m) = Some (person1 c)
                    \<and> layoutMapOf ls (the (partner m)) = Some (person2 c)))
         \<and> marriages (generateLayout cfg ms) = generateMarriages (people (generateLayout cfg ms)) ms"
proof -
  have nd: "\<forall>m \<in> set ms. 0x2D \<notin> set (mid m) \<and> (truthy (partner m) \<longrightarrow> 0x2D \<notin> set (the (partner m)))"
  proof (intro ballI conjI impI)
    fix m assume "m \<in> set ms"
    then show "0x2D \<notin> set (mid m)" using nodash by blast
  next
    fix m assume "m \<in> set ms" "truthy (partner m)"
    then obtain m' where "m' \<in> set ms" "mid m' = the (partner m)" using sym by blast
    then show "0x2D \<notin> set (the (partner m))" using nodash by metis
  qed
  have one: "\<forall>m \<in> set ms. truthy (partner m) \<longrightarrow>
            length (filter (\<lambda>c. {mid (pmember (person1 c)), mid (pmember (person2 c))}
                                 = {mid m, the (partner m)})
                     (generateMarriages ls ms)) = 1"
  proof (intro ballI impI)
    fix m assume m: "m \<in> set ms" "truthy (partner m)"
    have "pairCount (couple m) (generateMarriages ls ms) = 1"
      using generateMarriages_count [OF placed nd, of "couple m"] m by auto
    then show "length (filter (\<lambda>c. {mid (pmember (person1 c)), mid (pmember (person2 c))}
                                 = {mid m, the (partner m)})
                     (generateMarriages ls ms)) = 1"
      by (simp add: pairCount_def pairOf_def couple_def)
  qed
  have "\<forall>c \<in> set (snd (fold (marriageStep (layoutMapOf ls)) ms ([], []))). fromMember (layoutMapOf ls) (set ms) c"
    by (rule fold_marriageStep_fromMember) simp_all
  then have two: "\<forall>c \<in> set (generateMarriages ls ms).
              symbolX c = (px (person1 c) + px (person2 c)) / 2
              \<and> symbolY c = (py (person1 c) + py (person2 c)) / 2
              \<and> (\<exists>m \<in> set ms. truthy (partner m)
                    \<and> layoutMapOf ls (mid m) = Some (person1 c)
                    \<and> layoutMapOf ls (the (partner m)) = Some (person2 c))"
    unfolding generateMarriages_def fromMember_def by blast
  have three: "marriages (generateLayout cfg ms) = generateMarriages (people (generateLayout cfg ms)) ms"
    by (simp add: generateLayout_def Let_def)
  from one two three show ?thesis by (intro conjI)
qed

lemma one_marriage_per_pair_test_family:
  "john \<in> set [john, jane, child] \<and> truthy (partner john)
   \<and> length (filter (\<lambda>c. {mid (pmember (person1 c)), mid (pmember (person2 c))}
                           = {mid john, the (partner john)})
        (generateMarriages (people (generateLayout (newConfig noOverrides) [john, jane, child]))
           [john, jane, child])) = 1"
proof -
  have sym: "\<forall>m \<in> set [john, jane, child]. truthy (partner m) \<longrightarrow>
              (\<exists>m' \<in> set [john, jane, child]. mid m' = the (partner m) \<and> partner m' = Some (mid m))"
    by (simp add: john_def jane_def child_def truthy_def)
  have placed: "\<forall>m \<in> set [john, jane, child]. truthy (partner m) \<longrightarrow>
      layoutMapOf (people (generateLayout (newConfig noOverrides) [john, jane, child])) (mid m) \<noteq> None
      \<and> layoutMapOf (people (generateLayout (newConfig noOverrides) [john, jane, child])) (the (partner m)) \<noteq> None"
    by (simp add: ev)
  have nodash: "\<forall>m \<in> set [john, jane, child]. 0x2D \<notin> set (mid m)"
    by (simp add: john_def jane_def child_def js_def)
  have j: "john \<in> set [john, jane, child]" by simp
  have t: "truthy (partner john)" by (simp add: john_def truthy_def js_def)
  from one_marriage_per_pair [OF sym placed nodash] j t show ?thesis by blast
qed

subsection \<open>Label width (C6)\<close>

lemma placeMembers_textWidth:
  "map textWidth (fst (placeMembers cfg gm y c ms)) = map (\<lambda>m. estimateTextWidth cfg (namn m)) ms"
  by (induction ms arbitrary: c) (simp_all add: Let_def)

lemma people_textWidth:
  "map textWidth (people (generateLayout cfg ms))
     = map (\<lambda>m. estimateTextWidth cfg (namn m)) (concat (map gmembers (groupByGeneration cfg ms)))"
  by (simp add: generateLayout_def calculatePersonPositions_def Let_def map_concat comp_def
      placeGeneration_def placeMembers_textWidth)

text \<open>
  C6, as the code has it: the estimated label width is the number of code units of the
  text times the fixed average glyph width 8. The configured font size plays no part:
  changing it leaves every width as it was, and the label widths of a layout are those
  of the members' names, band by band, whatever the configuration.
\<close>

theorem estimateTextWidth_ignores_fontSize:
  "estimateTextWidth cfg text = of_nat (length text) * 8
   \<and> estimateTextWidth (cfg\<lparr>fontSize := f\<rparr>) text = estimateTextWidth cfg text
   \<and> map textWidth (people (generateLayout cfg ms))
       = map (\<lambda>m. of_nat (length (namn m)) * 8)
           (concat (map (\<lambda>g. filter (\<lambda>m. generation m = g) ms)
                        (sorted_list_of_set (generation ` set ms))))"
  by (simp add: people_textWidth groupByGeneration_members estimateTextWidth_def avgCharWidth_def)

text \<open>
  C6 as stated fails: doubling the configured font size from 16 to 32 does not double
  the label width of the name John.
\<close>

theorem estimateTextWidth_not_scaled_counterexample:
  "estimateTextWidth (newConfig (noOverrides\<lparr>o_fontSize := Some 32\<rparr>)) (js ''John'')
     \<noteq> (32 / 16) * estimateTextWidth (newConfig (noOverrides\<lparr>o_fontSize := Some 16\<rparr>)) (js ''John'')"
  by (simp add: estimateTextWidth_def avgCharWidth_def js_def)

subsection \<open>Canvas dimensions (C9, C10)\<close>


text \<open>
  C10: with no members the placement list is empty, the dimension calculator returns
  exactly 595 by 842, and the layout is the empty layout with those dimensions.
\<close>

theorem generateLayout_no_members:
  "calculateDimensions cfg [] = \<lparr> width = 595, height = 842 \<rparr>
   \<and> generateLayout cfg [] =
       \<lparr> people = [], connections = [], marriages = [],
         dimensions = \<lparr> width = 595, height = 842 \<rparr>, generations = [] \<rparr>"
  by (simp add: generateLayout_def groupByGeneration_def generationMapOf_def
      calculatePersonPositions_def generateConnections_def generateMarriages_def Let_def)

end
